theory Spec2Isabelle
  imports Main
begin

section \<open>Python values, exceptions and the state of the world\<close>

text \<open>
  The two scripts of the repository, \<^verbatim>\<open>azure-to-gcp-migration.py\<close> and
  \<^verbatim>\<open>gcp-to-azure-image-verify.py\<close>, are embedded as HOL functions that pass the state
  of the world explicitly. A Python call either returns a value or raises; a raised
  exception is a value of \<open>exc\<close>. The handlers of the scripts are all
  \<^verbatim>\<open>except Exception\<close> or \<^verbatim>\<open>except subprocess.CalledProcessError\<close>, so the model
  keeps the class of an exception: \<open>KeyboardInterrupt\<close> and \<open>SystemExit\<close> derive from
  \<^verbatim>\<open>BaseException\<close> only and pass through \<^verbatim>\<open>except Exception\<close>.
\<close>

datatype cmd = Argv "string list" | Shell string

datatype exc =
    CalledProcessError cmd int
  | OSError string
  | TypeError string
  | ValueError string
  | IndexError string
  | NameError string
  | OperationalError string
  | RuntimeError string
  | UnicodeDecodeError string
  | KeyboardInterrupt
  | SystemExit int

fun is_Exception :: "exc \<Rightarrow> bool" where
  "is_Exception KeyboardInterrupt = False"
| "is_Exception (SystemExit _) = False"
| "is_Exception _ = True"

fun is_CalledProcessError :: "exc \<Rightarrow> bool" where
  "is_CalledProcessError (CalledProcessError _ _) = True"
| "is_CalledProcessError _ = False"

datatype 'a outcome = Returns 'a | Raises exc

text \<open>
  A row of the table \<^verbatim>\<open>processed_entries\<close>: \<open>(acr_name, repository, tag, digest)\<close>,
  four TEXT columns that together are the primary key.
\<close>

type_synonym row = "string \<times> string \<times> string \<times> string"

text \<open>
  Log records and printed lines. A message is the list of the fragments of the f-string
  that builds it, so that no number or exception has to be rendered as text.
\<close>

datatype level = INFO | WARNING | ERROR | PRINT

datatype frag = S string | N int | E exc | R row

type_synonym logline = "level \<times> frag list"

text \<open>
  The world: the state of the external services (\<open>cloud\<close>, abstract: the Azure and
  Google command line tools and the Azure SDK read and change it), the table of
  \<^verbatim>\<open>processed.db\<close> (\<open>None\<close> while the table has not been created), the text files of
  the working directory (a file is the list of its lines, each with its line terminator,
  as iterating over the file yields them) and everything logged or printed so far.
\<close>

record 'x world =
  cloud :: 'x
  processed_db :: "row list option"
  files :: "string \<Rightarrow> string list option"
  logs :: "logline list"

definition logging :: "level \<Rightarrow> frag list \<Rightarrow> 'x world \<Rightarrow> 'x world" where
  "logging lv msg w = w\<lparr>logs := logs w @ [(lv, msg)]\<rparr>"

text \<open>
  The environment of a run: the outcome of every subprocess and of the SDK call that
  lists the registries, as functions of the state of the external services, and the
  constants read from \<^verbatim>\<open>.env\<close> at import time. \<^verbatim>\<open>time.sleep\<close> has no effect on the
  state and is left out.
\<close>

text \<open>
  What a subprocess wrote to its standard error is a string of bytes, which the script
  turns into text with \<^verbatim>\<open>decode()\<close>: \<open>Text s\<close> stands for the bytes that decode, as
  UTF-8, to the text \<open>s\<close>, and \<open>Not_utf8 b\<close> for bytes \<open>b\<close> that are not valid UTF-8, on
  which \<^verbatim>\<open>decode()\<close> raises \<^verbatim>\<open>UnicodeDecodeError\<close>.
\<close>

datatype bytes = Text string | Not_utf8 string

fun decode :: "bytes \<Rightarrow> string outcome" where
  "decode (Text s) = Returns s"
| "decode (Not_utf8 b) = Raises (UnicodeDecodeError ''invalid start byte'')"

record proc =
  returncode :: int
  stdout :: string
  stderr :: bytes

record 'x env =
  sh :: "cmd \<Rightarrow> 'x \<Rightarrow> proc outcome \<times> 'x"
  registries_list :: "'x \<Rightarrow> string list outcome \<times> 'x"
  GCR_PROJECT_ID :: string
  GCR_REGION :: string
  MAX_CONCURRENT_JOBS :: int
  RETRY_LIMIT :: int

section \<open>Strings and subprocesses\<close>

text \<open>
  A Python \<^verbatim>\<open>str\<close> is modelled as a list of characters with code points below 256.
  \<open>isspace\<close> lists the white space among them; \<open>strip\<close> is \<^verbatim>\<open>str.strip()\<close>,
  \<open>split_at\<close> splits at every separator character and keeps empty fields, as
  \<^verbatim>\<open>str.split(':')\<close> does, and \<open>split_ws\<close> is \<^verbatim>\<open>str.split()\<close>, which splits at runs of
  white space and drops empty fields. The standard output of a subprocess is taken as
  text: its \<^verbatim>\<open>decode()\<close> is not modelled. The standard error is kept as \<open>bytes\<close> and
  decoded where the script calls \<^verbatim>\<open>result.stderr.decode()\<close>.
\<close>

definition isspace :: "char \<Rightarrow> bool" where
  "isspace c = (of_char c \<in> set [9, 10, 11, 12, 13, 28, 29, 30, 31, 32, 133, 160 :: nat])"

definition strip :: "string \<Rightarrow> string" where
  "strip s = rev (dropWhile isspace (rev (dropWhile isspace s)))"

fun split_at :: "(char \<Rightarrow> bool) \<Rightarrow> string \<Rightarrow> string list" where
  "split_at sep [] = [[]]"
| "split_at sep (c # cs) =
     (if sep c then [] # split_at sep cs
      else (case split_at sep cs of [] \<Rightarrow> [[c]] | p # ps \<Rightarrow> (c # p) # ps))"

definition split_colon :: "string \<Rightarrow> string list" where
  "split_colon s = split_at (\<lambda>c. c = CHR '':'') s"

definition split_ws :: "string \<Rightarrow> string list" where
  "split_ws s = filter (\<lambda>p. p \<noteq> []) (split_at isspace s)"

fun contains :: "string \<Rightarrow> string \<Rightarrow> bool" where
  "contains sub [] = (sub = [])"
| "contains sub (c # cs) = (take (length sub) (c # cs) = sub \<or> contains sub cs)"

text \<open>
  \<^verbatim>\<open>subprocess.run\<close> returns the completed process, or raises when the program cannot
  be started; with \<^verbatim>\<open>check=True\<close>, and in \<^verbatim>\<open>check_output\<close>, a nonzero return code
  raises \<^verbatim>\<open>CalledProcessError\<close>.
\<close>

definition subprocess_run :: "'x env \<Rightarrow> cmd \<Rightarrow> 'x world \<Rightarrow> proc outcome \<times> 'x world" where
  "subprocess_run env c w = (case sh env c (cloud w) of (r, x) \<Rightarrow> (r, w\<lparr>cloud := x\<rparr>))"

definition subprocess_run_check ::
  "'x env \<Rightarrow> cmd \<Rightarrow> 'x world \<Rightarrow> proc outcome \<times> 'x world" where
  "subprocess_run_check env c w =
     (case subprocess_run env c w of
        (Raises e, w') \<Rightarrow> (Raises e, w')
      | (Returns p, w') \<Rightarrow>
          if returncode p \<noteq> 0 then (Raises (CalledProcessError c (returncode p)), w')
          else (Returns p, w'))"

definition check_output :: "'x env \<Rightarrow> cmd \<Rightarrow> 'x world \<Rightarrow> string outcome \<times> 'x world" where
  "check_output env c w =
     (case subprocess_run_check env c w of
        (Raises e, w') \<Rightarrow> (Raises e, w')
      | (Returns p, w') \<Rightarrow> (Returns (stdout p), w'))"

section \<open>The retry decorator\<close>

text \<open>
  \<^verbatim>\<open>
  def retry(retries=RETRY_LIMIT, delay=2):
     def decorator(func):
         def wrapper(*args, **kwargs):
             for i in range(retries):
                 try:
                     return func(*args, **kwargs)
                 except Exception as e:
                     logging.warning(f"Retrying due to: {e}, attempt {i+1}/{retries}")
                     time.sleep(delay)
             logging.error(f"Function {func.__name__} failed after {retries} retries")
         return wrapper
     return decorator
  \<close>
  The wrapped function returns a Python value or \<^verbatim>\<open>None\<close>, hence \<open>'a option\<close>; falling
  off the end of \<^verbatim>\<open>wrapper\<close> returns \<^verbatim>\<open>None\<close>, the sentinel of a call that failed.
  \<open>range_py n\<close> is \<^verbatim>\<open>range(n)\<close>, empty for \<open>n \<le> 0\<close>.
\<close>

definition range_py :: "int \<Rightarrow> nat list" where
  "range_py n = [0..<nat n]"

fun wrapper ::
  "int \<Rightarrow> string \<Rightarrow> ('x world \<Rightarrow> 'a option outcome \<times> 'x world) \<Rightarrow> nat list \<Rightarrow>
   'x world \<Rightarrow> 'a option outcome \<times> 'x world" where
  "wrapper retries name func [] w =
     (Returns None,
      logging ERROR [S ''Function '', S name, S '' failed after '', N retries, S '' retries''] w)"
| "wrapper retries name func (i # is) w =
     (case func w of
        (Returns v, w') \<Rightarrow> (Returns v, w')
      | (Raises e, w') \<Rightarrow>
          if is_Exception e
          then wrapper retries name func is
                 (logging WARNING [S ''Retrying due to: '', E e, S '', attempt '',
                                   N (int i + 1), S ''/'', N retries] w')
          else (Raises e, w'))"

definition retry ::
  "int \<Rightarrow> string \<Rightarrow> ('x world \<Rightarrow> 'a option outcome \<times> 'x world) \<Rightarrow>
   'x world \<Rightarrow> 'a option outcome \<times> 'x world" where
  "retry retries name func w = wrapper retries name func (range_py retries) w"

section \<open>The ledger of processed images\<close>

text \<open>
  \<^verbatim>\<open>processed.db\<close> holds one table whose primary key is the whole row. \<^verbatim>\<open>init_db\<close>
  creates the table if it does not exist; the other four functions open the file and
  run one statement, which raises \<^verbatim>\<open>sqlite3.OperationalError\<close> while there is no table.
  \<^verbatim>\<open>INSERT OR IGNORE\<close> leaves the table as it is when the key is present. The rows are
  kept in the order of insertion; SQL promises no order for \<^verbatim>\<open>SELECT *\<close>, and no
  statement below depends on it. Failures of the file system and of locking are not
  modelled.
\<close>

definition no_such_table :: exc where
  "no_such_table = OperationalError ''no such table: processed_entries''"

definition init_db :: "'x world \<Rightarrow> 'x world" where
  "init_db w = (case processed_db w of None \<Rightarrow> w\<lparr>processed_db := Some []\<rparr> | Some t \<Rightarrow> w)"

definition insert_processed ::
  "string \<Rightarrow> string \<Rightarrow> string \<Rightarrow> string \<Rightarrow> 'x world \<Rightarrow> unit outcome \<times> 'x world" where
  "insert_processed acr_name repo tag digest w =
     (case processed_db w of
        None \<Rightarrow> (Raises no_such_table, w)
      | Some t \<Rightarrow>
          (Returns (),
           w\<lparr>processed_db :=
                Some (if (acr_name, repo, tag, digest) \<in> set t then t
                      else t @ [(acr_name, repo, tag, digest)])\<rparr>))"

definition check_if_processed ::
  "string \<Rightarrow> string \<Rightarrow> string \<Rightarrow> string \<Rightarrow> 'x world \<Rightarrow> bool outcome" where
  "check_if_processed acr_name repo tag digest w =
     (case processed_db w of
        None \<Rightarrow> Raises no_such_table
      | Some t \<Rightarrow> Returns ((acr_name, repo, tag, digest) \<in> set t))"

definition get_all_processed :: "'x world \<Rightarrow> row list outcome" where
  "get_all_processed w =
     (case processed_db w of None \<Rightarrow> Raises no_such_table | Some t \<Rightarrow> Returns t)"

definition clear_all_processed :: "'x world \<Rightarrow> unit outcome \<times> 'x world" where
  "clear_all_processed w =
     (case processed_db w of
        None \<Rightarrow> (Raises no_such_table, w)
      | Some t \<Rightarrow> (Returns (), w\<lparr>processed_db := Some []\<rparr>))"

text \<open>Inserting one row after the other, as a sequence of calls of \<^verbatim>\<open>insert_processed\<close>.\<close>

fun insert_all :: "row list \<Rightarrow> 'x world \<Rightarrow> 'x world" where
  "insert_all [] w = w"
| "insert_all ((a, r, t, d) # rows) w = insert_all rows (snd (insert_processed a r t d w))"

section \<open>Chunks of registries and their dispatch\<close>

text \<open>
  \<^verbatim>\<open>
  def chunkify(lst, n):
     return [lst[i:i + n] for i in range(0, len(lst), n)]
  \<close>
  \<^verbatim>\<open>range(0, stop, step)\<close> raises \<^verbatim>\<open>ValueError\<close> for a step of zero, is empty for a
  negative step, and otherwise lists the multiples of the step below \<open>stop\<close>.
\<close>

definition range_step :: "nat \<Rightarrow> int \<Rightarrow> nat list outcome" where
  "range_step stop step =
     (if step = 0 then Raises (ValueError ''range() arg 3 must not be zero'')
      else if step < 0 then Returns []
      else Returns (filter (\<lambda>i. i mod nat step = 0) [0..<stop]))"

definition chunkify :: "'a list \<Rightarrow> int \<Rightarrow> 'a list list outcome" where
  "chunkify lst n =
     (case range_step (length lst) n of
        Raises e \<Rightarrow> Raises e
      | Returns starts \<Rightarrow> Returns (map (\<lambda>i. take (nat n) (drop i lst)) starts))"

text \<open>
  The loop of the full scan:
  \<^verbatim>\<open>
  for chunk in chunks:
      with ThreadPoolExecutor(max_workers=MAX_CONCURRENT_JOBS) as executor:
          futures = [executor.submit(process_acr, acr_name) for acr_name in chunk]
          for future in as_completed(futures):
              try:
                  future.result()
              except Exception as exc:
                  logging.error(f"Error processing ACR: {exc}")
  \<close>
  The calls of one chunk run in the pool; leaving the \<^verbatim>\<open>with\<close> block waits for all of
  them. The model runs the calls of a chunk one after the other, in the order \<open>sched\<close>
  in which they complete (a parameter: any order can occur), and then reads the results
  in that order. The pool's events are recorded beside the world: \<open>Dispatched k a\<close> when
  the call for \<open>a\<close> of chunk number \<open>k\<close> is submitted, \<open>Completed k a\<close> when it is done.
  The constructor of the pool raises \<^verbatim>\<open>ValueError\<close> for \<^verbatim>\<open>max_workers <= 0\<close>.
\<close>

datatype event = Dispatched nat string | Completed nat string

fun run_futures ::
  "(string \<Rightarrow> 'x world \<Rightarrow> unit outcome \<times> 'x world) \<Rightarrow> string list \<Rightarrow> 'x world \<Rightarrow>
   unit outcome list \<times> 'x world" where
  "run_futures task [] w = ([], w)"
| "run_futures task (a # as) w =
     (case task a w of (r, w') \<Rightarrow>
        (case run_futures task as w' of (rs, w'') \<Rightarrow> (r # rs, w'')))"

fun read_results :: "unit outcome list \<Rightarrow> 'x world \<Rightarrow> unit outcome \<times> 'x world" where
  "read_results [] w = (Returns (), w)"
| "read_results (Returns u # rs) w = read_results rs w"
| "read_results (Raises e # rs) w =
     (if is_Exception e
      then read_results rs (logging ERROR [S ''Error processing ACR: '', E e] w)
      else (Raises e, w))"

fun dispatch_chunks ::
  "(string list \<Rightarrow> string list) \<Rightarrow> (string \<Rightarrow> 'x world \<Rightarrow> unit outcome \<times> 'x world) \<Rightarrow>
   int \<Rightarrow> nat \<Rightarrow> string list list \<Rightarrow> 'x world \<Rightarrow> event list \<Rightarrow>
   unit outcome \<times> 'x world \<times> event list" where
  "dispatch_chunks sched task max_workers k [] w tr = (Returns (), w, tr)"
| "dispatch_chunks sched task max_workers k (chunk # chunks) w tr =
     (if max_workers \<le> 0
      then (Raises (ValueError ''max_workers must be greater than 0''), w, tr)
      else
        (case run_futures task (sched chunk) w of (rs, w') \<Rightarrow>
           (case read_results rs w' of
              (Raises e, w'') \<Rightarrow>
                (Raises e, w'', tr @ map (Dispatched k) chunk @ map (Completed k) (sched chunk))
            | (Returns u, w'') \<Rightarrow>
                dispatch_chunks sched task max_workers (Suc k) chunks w''
                  (tr @ map (Dispatched k) chunk @ map (Completed k) (sched chunk)))))"

section \<open>The functions of the full scan\<close>

text \<open>
  Each function below is the body of the Python function of the same name; the functions
  decorated with \<^verbatim>\<open>@retry()\<close> are passed through \<open>retry\<close> with \<^verbatim>\<open>RETRY_LIMIT\<close>.
  \<^verbatim>\<open>get_acr_credentials\<close>, \<^verbatim>\<open>load_processed\<close> and \<^verbatim>\<open>save_processed\<close> are never called
  and are left out.
\<close>

definition get_azure_subscription_id ::
  "'x env \<Rightarrow> 'x world \<Rightarrow> string option outcome \<times> 'x world" where
  "get_azure_subscription_id env w =
     (case check_output env
             (Argv [''az'', ''account'', ''list'', ''--query'', ''[?isDefault].id'', ''-o'', ''tsv'']) w of
        (Returns out, w') \<Rightarrow> (Returns (Some (strip out)), w')
      | (Raises e, w') \<Rightarrow>
          if is_CalledProcessError e
          then (Returns None,
                logging ERROR [S ''Failed to fetch the Azure subscription ID: '', E e] w')
          else (Raises e, w'))"

definition list_acr_registries ::
  "'x env \<Rightarrow> 'x world \<Rightarrow> string list option outcome \<times> 'x world" where
  "list_acr_registries env =
     retry (RETRY_LIMIT env) ''list_acr_registries''
       (\<lambda>w. case registries_list env (cloud w) of
               (Returns names, x) \<Rightarrow> (Returns (Some names), w\<lparr>cloud := x\<rparr>)
             | (Raises e, x) \<Rightarrow> (Raises e, w\<lparr>cloud := x\<rparr>))"

definition get_resource_group_name ::
  "'x env \<Rightarrow> string \<Rightarrow> 'x world \<Rightarrow> string option outcome \<times> 'x world" where
  "get_resource_group_name env acr_name =
     retry (RETRY_LIMIT env) ''get_resource_group_name''
       (\<lambda>w. case check_output env
                    (Argv [''az'', ''acr'', ''show'', ''--name'', acr_name,
                           ''--query'', ''resourceGroup'', ''--output'', ''tsv'']) w of
               (Returns out, w') \<Rightarrow> (Returns (Some (strip out)), w')
             | (Raises e, w') \<Rightarrow>
                 if is_CalledProcessError e
                 then (Returns None,
                       logging ERROR [S ''Failed to fetch the resource group name for ACR '',
                                      S acr_name, S '': '', E e] w')
                 else (Raises e, w'))"

definition list_repositories ::
  "'x env \<Rightarrow> string \<Rightarrow> 'x world \<Rightarrow> string list option outcome \<times> 'x world" where
  "list_repositories env acr_name =
     retry (RETRY_LIMIT env) ''list_repositories''
       (\<lambda>w. case check_output env
                    (Argv [''az'', ''acr'', ''repository'', ''list'', ''--name'', acr_name,
                           ''--output'', ''tsv'']) w of
               (Returns out, w') \<Rightarrow> (Returns (Some (split_ws out)), w')
             | (Raises e, w') \<Rightarrow> (Raises e, w'))"

definition list_tags ::
  "'x env \<Rightarrow> string \<Rightarrow> string \<Rightarrow> 'x world \<Rightarrow> string list option outcome \<times> 'x world" where
  "list_tags env acr_name repo =
     retry (RETRY_LIMIT env) ''list_tags''
       (\<lambda>w. case check_output env
                    (Argv [''az'', ''acr'', ''repository'', ''show-tags'', ''--name'', acr_name,
                           ''--repository'', repo, ''--output'', ''tsv'']) w of
               (Returns out, w') \<Rightarrow> (Returns (Some (split_ws out)), w')
             | (Raises e, w') \<Rightarrow> (Raises e, w'))"

definition get_tag_digest ::
  "'x env \<Rightarrow> string \<Rightarrow> string \<Rightarrow> string \<Rightarrow> 'x world \<Rightarrow> string option outcome \<times> 'x world" where
  "get_tag_digest env acr_name repo tag =
     retry (RETRY_LIMIT env) ''get_tag_digest''
       (\<lambda>w. case check_output env
                    (Argv [''az'', ''acr'', ''manifest'', ''list-metadata'', ''-r'', acr_name,
                           ''-n'', repo, ''--query'',
                           ''[?tags[?contains(@, '' @ [CHR 0x27] @ tag @ [CHR 0x27] @ '')]].digest'',
                           ''--output'', ''tsv'', ''--only-show-errors'']) w of
               (Returns out, w') \<Rightarrow> (Returns (Some (strip out)), w')
             | (Raises e, w') \<Rightarrow>
                 if is_CalledProcessError e
                 then (Returns None,
                       logging ERROR [S ''Failed to get digest for '', S acr_name, S ''/'',
                                      S repo, S '':'', S tag, S '': '', E e] w')
                 else (Raises e, w'))"

text \<open>
  \<^verbatim>\<open>
  @retry()
  def create_gcr_repository(repo_name):
     command = ["gcloud", "artifacts", "repositories", "create", repo_name, ...]
     result = subprocess.run(command, stdout=subprocess.PIPE, stderr=subprocess.PIPE)
     if result.returncode == 0:
         logging.info(f"Successfully created repository {repo_name}")
     elif "ALREADY_EXISTS" in result.stderr.decode():
         logging.info(f"Repository {repo_name} already exists. Skipping creation.")
     else:
         logging.error(f"Failed to create repository {repo_name}: {result.stderr.decode()}")

  @retry()
  def copy_image(source_image, dest_image):
     command = f"gcrane cp {source_image} {dest_image}"
     result = subprocess.run(command, shell=True, stdout=subprocess.PIPE, stderr=subprocess.PIPE)
     if result.returncode == 0:
         logging.info(f"Successfully copied {source_image} to {dest_image}")
     else:
         logging.error(f"Failed to copy {source_image} to {dest_image}: {result.stderr.decode()}")
  \<close>
  Neither body has a \<^verbatim>\<open>return\<close> statement: both return \<^verbatim>\<open>None\<close>. The standard error
  is decoded only after a nonzero exit status, while the condition of the \<^verbatim>\<open>elif\<close> is
  evaluated or the record of the failure is formatted; a \<^verbatim>\<open>UnicodeDecodeError\<close> raised
  there leaves the body, with nothing logged, and reaches the wrapper of \<^verbatim>\<open>retry\<close>.
\<close>

definition gcloud_create :: "string \<Rightarrow> cmd" where
  "gcloud_create repo_name =
     Argv [''gcloud'', ''artifacts'', ''repositories'', ''create'', repo_name,
           ''--repository-format=docker'', ''--location=us'',
           ''--description'', ''Repository for '' @ repo_name]"

definition create_gcr_repository_body ::
  "'x env \<Rightarrow> string \<Rightarrow> 'x world \<Rightarrow> unit option outcome \<times> 'x world" where
  "create_gcr_repository_body env repo_name w =
     (case subprocess_run env (gcloud_create repo_name) w of
        (Raises e, w') \<Rightarrow> (Raises e, w')
      | (Returns result, w') \<Rightarrow>
          if returncode result = 0
          then (Returns None, logging INFO [S ''Successfully created repository '', S repo_name] w')
          else (case decode (stderr result) of
                  Raises e \<Rightarrow> (Raises e, w')
                | Returns err \<Rightarrow>
                    if contains ''ALREADY_EXISTS'' err
                    then (Returns None,
                          logging INFO [S ''Repository '', S repo_name,
                                        S '' already exists. Skipping creation.''] w')
                    else (case decode (stderr result) of
                            Raises e \<Rightarrow> (Raises e, w')
                          | Returns err' \<Rightarrow>
                              (Returns None,
                               logging ERROR [S ''Failed to create repository '', S repo_name,
                                              S '': '', S err'] w'))))"

definition create_gcr_repository ::
  "'x env \<Rightarrow> string \<Rightarrow> 'x world \<Rightarrow> unit option outcome \<times> 'x world" where
  "create_gcr_repository env repo_name =
     retry (RETRY_LIMIT env) ''create_gcr_repository'' (create_gcr_repository_body env repo_name)"

definition gcrane_cp :: "string \<Rightarrow> string \<Rightarrow> cmd" where
  "gcrane_cp source_image dest_image = Shell (''gcrane cp '' @ source_image @ '' '' @ dest_image)"

definition copy_image_body ::
  "'x env \<Rightarrow> string \<Rightarrow> string \<Rightarrow> 'x world \<Rightarrow> unit option outcome \<times> 'x world" where
  "copy_image_body env source_image dest_image w =
     (case subprocess_run env (gcrane_cp source_image dest_image) w of
        (Raises e, w') \<Rightarrow> (Raises e, w')
      | (Returns result, w') \<Rightarrow>
          if returncode result = 0
          then (Returns None,
                logging INFO [S ''Successfully copied '', S source_image, S '' to '',
                              S dest_image] w')
          else (case decode (stderr result) of
                  Raises e \<Rightarrow> (Raises e, w')
                | Returns err \<Rightarrow>
                    (Returns None,
                     logging ERROR [S ''Failed to copy '', S source_image, S '' to '',
                                    S dest_image, S '': '', S err] w')))"

definition copy_image ::
  "'x env \<Rightarrow> string \<Rightarrow> string \<Rightarrow> 'x world \<Rightarrow> unit option outcome \<times> 'x world" where
  "copy_image env source_image dest_image =
     retry (RETRY_LIMIT env) ''copy_image'' (copy_image_body env source_image dest_image)"

text \<open>
  \<^verbatim>\<open>
  def process_repository(acr_name, repo):
     try:
         tags = list_tags(acr_name, repo)
         dest_repo_name = f"{acr_name}"
         create_gcr_repository(dest_repo_name)
         for tag in tags:
             digest = get_tag_digest(acr_name, repo, tag)
             if not digest:
                 logging.error(f"Skipping {acr_name}/{repo}:{tag} due to missing digest.")
                 continue
             # Check if this repository:tag:digest has been processed before using SQLite
             if check_if_processed(acr_name, repo, tag, digest):
                 logging.info(f"Skipping {acr_name}/{repo}:{tag}:{digest} as it has been processed before.")
                 continue
             with ThreadPoolExecutor(max_workers=MAX_CONCURRENT_JOBS) as executor:
                 futures = [
                     executor.submit(copy_image, f"{acr_name}.azurecr.io/{repo}:{tag}", f"{GCR_REGION}-docker.pkg.dev/{GCR_PROJECT_ID}/{acr_name}/{repo}:{tag}")
                 ]
                 for future in as_completed(futures):
                     future.result()  # This will raise any exceptions caught during image copy
             # After successfully processing the repository:tag:digest, save it in SQLite
             insert_processed(acr_name, repo, tag, digest)
     except Exception as exc:
         logging.error(f"Error processing repository {repo}: {exc}")
  \<close>
  The pool of one tag holds a single call and is left only when that call is done, so
  the copy is a plain call here. \<open>process_tags\<close> is the loop over the tags.
\<close>

definition source_address :: "string \<Rightarrow> string \<Rightarrow> string \<Rightarrow> string" where
  "source_address acr_name repo tag = acr_name @ ''.azurecr.io/'' @ repo @ '':'' @ tag"

definition dest_address :: "'x env \<Rightarrow> string \<Rightarrow> string \<Rightarrow> string \<Rightarrow> string" where
  "dest_address env acr_name repo tag =
     GCR_REGION env @ ''-docker.pkg.dev/'' @ GCR_PROJECT_ID env @ ''/'' @ acr_name @ ''/'' @
     repo @ '':'' @ tag"

definition not_iterable :: exc where
  "not_iterable = TypeError ''NoneType object is not iterable''"

definition pool_size_error :: exc where
  "pool_size_error = ValueError ''max_workers must be greater than 0''"

fun process_tags ::
  "'x env \<Rightarrow> string \<Rightarrow> string \<Rightarrow> string list \<Rightarrow> 'x world \<Rightarrow> unit outcome \<times> 'x world" where
  "process_tags env acr_name repo [] w = (Returns (), w)"
| "process_tags env acr_name repo (tag # tags) w =
     (case get_tag_digest env acr_name repo tag w of
        (Raises e, w1) \<Rightarrow> (Raises e, w1)
      | (Returns None, w1) \<Rightarrow>
          process_tags env acr_name repo tags
            (logging ERROR [S ''Skipping '', S acr_name, S ''/'', S repo, S '':'', S tag,
                            S '' due to missing digest.''] w1)
      | (Returns (Some digest), w1) \<Rightarrow>
          if digest = []
          then process_tags env acr_name repo tags
                 (logging ERROR [S ''Skipping '', S acr_name, S ''/'', S repo, S '':'', S tag,
                                 S '' due to missing digest.''] w1)
          else
            (case check_if_processed acr_name repo tag digest w1 of
               Raises e \<Rightarrow> (Raises e, w1)
             | Returns True \<Rightarrow>
                 process_tags env acr_name repo tags
                   (logging INFO [S ''Skipping '', S acr_name, S ''/'', S repo, S '':'', S tag,
                                  S '':'', S digest, S '' as it has been processed before.''] w1)
             | Returns False \<Rightarrow>
                 if MAX_CONCURRENT_JOBS env \<le> 0 then (Raises pool_size_error, w1)
                 else
                   (case copy_image env (source_address acr_name repo tag)
                           (dest_address env acr_name repo tag) w1 of
                      (Raises e, w2) \<Rightarrow> (Raises e, w2)
                    | (Returns u, w2) \<Rightarrow>
                        (case insert_processed acr_name repo tag digest w2 of
                           (Raises e, w3) \<Rightarrow> (Raises e, w3)
                         | (Returns u', w3) \<Rightarrow> process_tags env acr_name repo tags w3))))"

definition process_repository_body ::
  "'x env \<Rightarrow> string \<Rightarrow> string \<Rightarrow> 'x world \<Rightarrow> unit outcome \<times> 'x world" where
  "process_repository_body env acr_name repo w =
     (case list_tags env acr_name repo w of
        (Raises e, w1) \<Rightarrow> (Raises e, w1)
      | (Returns tags, w1) \<Rightarrow>
          (case create_gcr_repository env acr_name w1 of
             (Raises e, w2) \<Rightarrow> (Raises e, w2)
           | (Returns u, w2) \<Rightarrow>
               (case tags of
                  None \<Rightarrow> (Raises not_iterable, w2)
                | Some ts \<Rightarrow> process_tags env acr_name repo ts w2)))"

definition process_repository ::
  "'x env \<Rightarrow> string \<Rightarrow> string \<Rightarrow> 'x world \<Rightarrow> unit outcome \<times> 'x world" where
  "process_repository env acr_name repo w =
     (case process_repository_body env acr_name repo w of
        (Returns u, w') \<Rightarrow> (Returns (), w')
      | (Raises e, w') \<Rightarrow>
          if is_Exception e
          then (Returns (),
                logging ERROR [S ''Error processing repository '', S repo, S '': '', E e] w')
          else (Raises e, w'))"

text \<open>
  \<^verbatim>\<open>
  def process_acr(acr_name):
     resource_group_name = get_resource_group_name(acr_name)
     if not resource_group_name:
         logging.error(f"Skipping ACR {acr_name} due to missing resource group name")
         return
     repositories = list_repositories(acr_name)
     for repo in repositories:
         process_repository(acr_name, repo)
  \<close>
\<close>

fun process_repositories ::
  "'x env \<Rightarrow> string \<Rightarrow> string list \<Rightarrow> 'x world \<Rightarrow> unit outcome \<times> 'x world" where
  "process_repositories env acr_name [] w = (Returns (), w)"
| "process_repositories env acr_name (repo # repos) w =
     (case process_repository env acr_name repo w of
        (Raises e, w') \<Rightarrow> (Raises e, w')
      | (Returns u, w') \<Rightarrow> process_repositories env acr_name repos w')"

definition falsy :: "string option \<Rightarrow> bool" where
  "falsy v = (case v of None \<Rightarrow> True | Some s \<Rightarrow> s = [])"

definition process_acr :: "'x env \<Rightarrow> string \<Rightarrow> 'x world \<Rightarrow> unit outcome \<times> 'x world" where
  "process_acr env acr_name w =
     (case get_resource_group_name env acr_name w of
        (Raises e, w1) \<Rightarrow> (Raises e, w1)
      | (Returns resource_group_name, w1) \<Rightarrow>
          if falsy resource_group_name
          then (Returns (),
                logging ERROR [S ''Skipping ACR '', S acr_name,
                               S '' due to missing resource group name''] w1)
          else
            (case list_repositories env acr_name w1 of
               (Raises e, w2) \<Rightarrow> (Raises e, w2)
             | (Returns None, w2) \<Rightarrow> (Raises not_iterable, w2)
             | (Returns (Some repositories), w2) \<Rightarrow>
                 process_repositories env acr_name repositories w2))"

section \<open>Targeted replay of a difference file\<close>

text \<open>
  \<^verbatim>\<open>
  def ensure_gar_repository(project_id, repository_name):
    try:
        result = subprocess.run(
            ["gcloud", "artifacts", "repositories", "list",
             "--project", project_id, "--location", GCR_REGION,
             "--filter", f"name:projects/{project_id}/locations/{GCR_REGION}/repositories/{repository_name}",
             "--format", "value(name)"], capture_output=True, text=True, check=True)
        if not result.stdout.strip():
            print(f"Creating repository {repository_name} in project {project_id}.")
            subprocess.run(
                ["gcloud", "artifacts", "repositories", "create", repository_name,
                 "--repository-format=docker", "--location", location, "--project", project_id],
                check=True)
            print(f"Repository {repository_name} created.")
        else:
            print(f"Repository {repository_name} already exists.")
    except subprocess.CalledProcessError as e:
        print(f"An error occurred while checking or creating the repository: {e}")
  \<close>
  The migration script binds no global \<^verbatim>\<open>location\<close>: building the argument list of
  the second command raises \<^verbatim>\<open>NameError\<close>, which the handler does not catch.
\<close>

definition ensure_gar_repository ::
  "'x env \<Rightarrow> string \<Rightarrow> string \<Rightarrow> 'x world \<Rightarrow> unit outcome \<times> 'x world" where
  "ensure_gar_repository env project_id repository_name w =
     (case subprocess_run_check env
             (Argv [''gcloud'', ''artifacts'', ''repositories'', ''list'',
                    ''--project'', project_id, ''--location'', GCR_REGION env,
                    ''--filter'',
                    ''name:projects/'' @ project_id @ ''/locations/'' @ GCR_REGION env @
                      ''/repositories/'' @ repository_name,
                    ''--format'', ''value(name)'']) w of
        (Raises e, w1) \<Rightarrow>
          if is_CalledProcessError e
          then (Returns (),
                logging PRINT
                  [S ''An error occurred while checking or creating the repository: '', E e] w1)
          else (Raises e, w1)
      | (Returns result, w1) \<Rightarrow>
          if strip (stdout result) = []
          then (Raises (NameError ''location''),
                logging PRINT [S ''Creating repository '', S repository_name, S '' in project '',
                               S project_id, S ''.''] w1)
          else (Returns (),
                logging PRINT [S ''Repository '', S repository_name, S '' already exists.''] w1))"

text \<open>
  \<^verbatim>\<open>
  def copy_images_to_gcr(difference_file):
     try:
         with open(difference_file, 'r') as f:
             original_images = f.readlines()
         if not original_images:
             print("No images to copy.")
             return
         with ThreadPoolExecutor() as executor:
             futures = []
             for original_image in original_images:
                 original_image = original_image.strip()
                 parts = original_image.split(':')
                 if len(parts) >= 3:
                     repo_name = parts[0]
                     ensure_gar_repository(GCR_PROJECT_ID, repo_name)
                     azure_registry = f"{parts[0]}.azurecr.io"
                     image_path_with_tag = f"{parts[1]}:{parts[2]}"
                     source_image = f"{azure_registry}/{image_path_with_tag}"
                     destination_image = f"{GCR_REGION}-docker.pkg.dev/{GCR_PROJECT_ID}/{parts[0]}/{image_path_with_tag}"
                     futures.append(executor.submit(copy_image, source_image, destination_image))
             for future in as_completed(futures):
                 try:
                     future.result()
                 except Exception as e:
                     print(f"An error occurred during image copy: {e}")
         Image = original_image.split(':')
         if len(Image) >= 3:
                     acr_name = Image[0]
                     repo = Image[1]
                     tag  = Image[2]
                     digest =  f"{parts[3]}:{parts[4]}"
                     insert_processed(acr_name, repo, tag, digest)
         processed_entries = get_all_processed()
         for entry in processed_entries:
             print(f"Processed: {entry}")
     except Exception as e:
         print(f"An error occurred: {e}")
  \<close>
  The variables of the first loop are a record: the loop leaves \<^verbatim>\<open>original_image\<close> and
  \<^verbatim>\<open>parts\<close> bound to the values of its last iteration, and the statements after the
  \<^verbatim>\<open>with\<close> block read them. A submitted copy is run when it is submitted (one of the
  schedules of the pool), and its outcome is kept in \<open>futures\<close>.
\<close>

record loop_vars =
  original_image :: string
  parts :: "string list"
  futures :: "unit option outcome list"

fun replay_lines ::
  "'x env \<Rightarrow> string list \<Rightarrow> loop_vars \<Rightarrow> 'x world \<Rightarrow> loop_vars outcome \<times> 'x world" where
  "replay_lines env [] vars w = (Returns vars, w)"
| "replay_lines env (line # lines) vars w =
     (if 3 \<le> length (split_colon (strip line))
      then
        (case ensure_gar_repository env (GCR_PROJECT_ID env) (split_colon (strip line) ! 0) w of
           (Raises e, w1) \<Rightarrow> (Raises e, w1)
         | (Returns u, w1) \<Rightarrow>
             (case copy_image env
                     (source_address (split_colon (strip line) ! 0)
                        (split_colon (strip line) ! 1) (split_colon (strip line) ! 2))
                     (dest_address env (split_colon (strip line) ! 0)
                        (split_colon (strip line) ! 1) (split_colon (strip line) ! 2)) w1 of
                (future, w2) \<Rightarrow>
                  replay_lines env lines
                    \<lparr>original_image = strip line, parts = split_colon (strip line),
                     futures = futures vars @ [future]\<rparr> w2))
      else
        replay_lines env lines
          \<lparr>original_image = strip line, parts = split_colon (strip line),
           futures = futures vars\<rparr> w)"

fun replay_results ::
  "unit option outcome list \<Rightarrow> 'x world \<Rightarrow> unit outcome \<times> 'x world" where
  "replay_results [] w = (Returns (), w)"
| "replay_results (Returns v # rs) w = replay_results rs w"
| "replay_results (Raises e # rs) w =
     (if is_Exception e
      then replay_results rs (logging PRINT [S ''An error occurred during image copy: '', E e] w)
      else (Raises e, w))"

definition record_last :: "loop_vars \<Rightarrow> 'x world \<Rightarrow> unit outcome \<times> 'x world" where
  "record_last vars w =
     (if 3 \<le> length (split_colon (original_image vars))
      then
        (if length (parts vars) < 5 then (Raises (IndexError ''list index out of range''), w)
         else insert_processed (split_colon (original_image vars) ! 0)
                (split_colon (original_image vars) ! 1) (split_colon (original_image vars) ! 2)
                (parts vars ! 3 @ '':'' @ parts vars ! 4) w)
      else (Returns (), w))"

definition report_processed :: "'x world \<Rightarrow> unit outcome \<times> 'x world" where
  "report_processed w =
     (case get_all_processed w of
        Raises e \<Rightarrow> (Raises e, w)
      | Returns processed_entries \<Rightarrow>
          (Returns (),
           foldl (\<lambda>w' entry. logging PRINT [S ''Processed: '', R entry] w') w processed_entries))"

definition unbound_vars :: loop_vars where
  "unbound_vars = \<lparr>original_image = [], parts = [], futures = []\<rparr>"

definition replay :: "'x env \<Rightarrow> string list \<Rightarrow> 'x world \<Rightarrow> unit outcome \<times> 'x world" where
  "replay env original_images w =
     (case replay_lines env original_images unbound_vars w of
        (Raises e, w1) \<Rightarrow> (Raises e, w1)
      | (Returns vars, w1) \<Rightarrow>
          (case replay_results (futures vars) w1 of
             (Raises e, w2) \<Rightarrow> (Raises e, w2)
           | (Returns u, w2) \<Rightarrow>
               (case record_last vars w2 of
                  (Raises e, w3) \<Rightarrow> (Raises e, w3)
                | (Returns u', w3) \<Rightarrow> report_processed w3)))"

definition copy_images_to_gcr_body ::
  "'x env \<Rightarrow> string \<Rightarrow> 'x world \<Rightarrow> unit outcome \<times> 'x world" where
  "copy_images_to_gcr_body env difference_file w =
     (case files w difference_file of
        None \<Rightarrow> (Raises (OSError ''No such file or directory''), w)
      | Some original_images \<Rightarrow>
          if original_images = [] then (Returns (), logging PRINT [S ''No images to copy.''] w)
          else replay env original_images w)"

definition copy_images_to_gcr ::
  "'x env \<Rightarrow> string \<Rightarrow> 'x world \<Rightarrow> unit outcome \<times> 'x world" where
  "copy_images_to_gcr env difference_file w =
     (case copy_images_to_gcr_body env difference_file w of
        (Returns u, w') \<Rightarrow> (Returns (), w')
      | (Raises e, w') \<Rightarrow>
          if is_Exception e
          then (Returns (), logging PRINT [S ''An error occurred: '', E e] w')
          else (Raises e, w'))"

section \<open>The main program of the migration script\<close>

text \<open>
  At import time the script resolves the subscription:
  \<^verbatim>\<open>
  subscription_id = get_azure_subscription_id()
  if not subscription_id:
     exit(1)  # Exit if the subscription ID couldn't be retrieved
  \<close>
  and then runs
  \<^verbatim>\<open>
  if args.diff_file:
      if os.path.isfile(args.diff_file):
          copy_images_to_gcr(args.diff_file)
      else:
          print(f"Error: The path provided is not a valid file: {args.diff_file}")
          sys.exit(1)
  else:
      init_db()
      acr_names = list_acr_registries()
      chunks = chunkify(acr_names, MAX_CONCURRENT_JOBS)
      for chunk in chunks:
          ... (the dispatch loop above, with process_acr)
      logging.info("Finished processing all ACRs")
      processed_entries = get_all_processed()
      for entry in processed_entries:
          print(f"Processed: {entry}")
  \<close>
  \<open>diff_file\<close> is the value of \<^verbatim>\<open>--diff-file\<close>, \<open>None\<close> when the option is absent.
  \<open>script\<close> is the run up to the end of the file or to the exception that leaves it;
  \<open>exit_status\<close> is the status with which the interpreter then ends the process.
\<close>

definition no_len :: exc where
  "no_len = TypeError ''object of type NoneType has no len()''"

definition full_scan ::
  "(string list \<Rightarrow> string list) \<Rightarrow> 'x env \<Rightarrow> 'x world \<Rightarrow>
   unit outcome \<times> 'x world \<times> event list" where
  "full_scan sched env w =
     (case list_acr_registries env (init_db w) of
        (Raises e, w1) \<Rightarrow> (Raises e, w1, [])
      | (Returns None, w1) \<Rightarrow> (Raises no_len, w1, [])
      | (Returns (Some acr_names), w1) \<Rightarrow>
          (case chunkify acr_names (MAX_CONCURRENT_JOBS env) of
             Raises e \<Rightarrow> (Raises e, w1, [])
           | Returns chunks \<Rightarrow>
               (case dispatch_chunks sched (process_acr env) (MAX_CONCURRENT_JOBS env) 0
                       chunks w1 [] of
                  (Raises e, w2, tr) \<Rightarrow> (Raises e, w2, tr)
                | (Returns u, w2, tr) \<Rightarrow>
                    (case report_processed (logging INFO [S ''Finished processing all ACRs''] w2) of
                       (r, w3) \<Rightarrow> (r, w3, tr)))))"

definition script ::
  "(string list \<Rightarrow> string list) \<Rightarrow> 'x env \<Rightarrow> string option \<Rightarrow> 'x world \<Rightarrow>
   unit outcome \<times> 'x world \<times> event list" where
  "script sched env diff_file w =
     (case get_azure_subscription_id env w of
        (Raises e, w0) \<Rightarrow> (Raises e, w0, [])
      | (Returns subscription_id, w0) \<Rightarrow>
          if falsy subscription_id then (Raises (SystemExit 1), w0, [])
          else
            (case diff_file of
               None \<Rightarrow> full_scan sched env w0
             | Some path \<Rightarrow>
                 if path = [] then full_scan sched env w0
                 else
                   (case files w0 path of
                      Some f \<Rightarrow> (case copy_images_to_gcr env path w0 of (r, w1) \<Rightarrow> (r, w1, []))
                    | None \<Rightarrow>
                        (Raises (SystemExit 1),
                         logging PRINT [S ''Error: The path provided is not a valid file: '',
                                        S path] w0, []))))"

fun exit_status :: "unit outcome \<Rightarrow> int" where
  "exit_status (Returns u) = 0"
| "exit_status (Raises (SystemExit n)) = n"
| "exit_status (Raises KeyboardInterrupt) = 130"
| "exit_status (Raises e) = 1"

section \<open>The verification script: comparing two inventories\<close>














text \<open>
  A line of the source inventory is built in \<^verbatim>\<open>list_acr_images_with_digests\<close> as
  \<^verbatim>\<open>f"{registry_name}:{repo}:{tag}:-{digest}"\<close>.
\<close>

definition image_identifier :: "row \<Rightarrow> string" where
  "image_identifier i =
     (case i of (registry_name, repo, tag, digest) \<Rightarrow>
        registry_name @ '':'' @ repo @ '':'' @ tag @ '':-'' @ digest)"

definition colon_free :: "string \<Rightarrow> bool" where
  "colon_free s = (CHR '':'' \<notin> set s)"

section \<open>Concrete environments and worlds used to exercise the theorems\<close>

definition world0 :: "nat world" where
  "world0 = \<lparr>cloud = 0, processed_db = None, files = (\<lambda>p. None), logs = []\<rparr>"

text \<open>An operation that always raises and counts its invocations in the external state.\<close>

definition flaky :: "nat world \<Rightarrow> unit option outcome \<times> nat world" where
  "flaky w = (Raises (OSError ''unreachable''), w\<lparr>cloud := Suc (cloud w)\<rparr>)"



text \<open>
  An environment for a full scan in which every \<^verbatim>\<open>az\<close> and \<^verbatim>\<open>gcloud\<close> command
  succeeds and every \<^verbatim>\<open>gcrane cp\<close> exits with status 1: the repository has one tag,
  \<^verbatim>\<open>v1\<close>, with digest \<^verbatim>\<open>sha256:d1\<close>. The external state counts the commands run.
\<close>

definition completed :: "int \<Rightarrow> string \<Rightarrow> string \<Rightarrow> proc" where
  "completed rc out err = \<lparr>returncode = rc, stdout = out, stderr = Text err\<rparr>"

definition failing_copy_sh :: "cmd \<Rightarrow> nat \<Rightarrow> proc outcome \<times> nat" where
  "failing_copy_sh c x =
     (case c of
        Shell s \<Rightarrow> (Returns (completed 1 [] ''UNAUTHORIZED''), Suc x)
      | Argv a \<Rightarrow>
          if take 4 a = [''az'', ''acr'', ''repository'', ''show-tags'']
          then (Returns (completed 0 (''v1'' @ [CHR 0x0A]) []), Suc x)
          else if take 4 a = [''az'', ''acr'', ''manifest'', ''list-metadata'']
          then (Returns (completed 0 (''sha256:d1'' @ [CHR 0x0A]) []), Suc x)
          else (Returns (completed 0 [] []), Suc x))"

definition failing_copy_env :: "nat env" where
  "failing_copy_env =
     \<lparr>sh = failing_copy_sh, registries_list = (\<lambda>x. (Returns [''reg1''], Suc x)),
      GCR_PROJECT_ID = ''proj'', GCR_REGION = ''us'', MAX_CONCURRENT_JOBS = 5, RETRY_LIMIT = 3\<rparr>"

text \<open>
  An environment for a replay in which the destination repository exists and every
  \<^verbatim>\<open>gcrane cp\<close> succeeds, and a difference file of two well-formed lines.
\<close>

definition replay_sh :: "cmd \<Rightarrow> nat \<Rightarrow> proc outcome \<times> nat" where
  "replay_sh c x =
     (case c of
        Shell s \<Rightarrow> (Returns (completed 0 [] []), Suc x)
      | Argv a \<Rightarrow>
          (Returns (completed 0 (''projects/proj/locations/us/repositories/reg1'' @ [CHR 0x0A]) []),
           Suc x))"

definition replay_env :: "nat env" where
  "replay_env =
     \<lparr>sh = replay_sh, registries_list = (\<lambda>x. (Returns [''reg1''], Suc x)),
      GCR_PROJECT_ID = ''proj'', GCR_REGION = ''us'', MAX_CONCURRENT_JOBS = 5, RETRY_LIMIT = 3\<rparr>"

definition two_lines :: "string list" where
  "two_lines = [''reg1:app:v1:-sha256:d1'' @ [CHR 0x0A], ''reg1:app:v2:-sha256:d2'' @ [CHR 0x0A]]"

definition replay_world :: "nat world" where
  "replay_world =
     \<lparr>cloud = 0, processed_db = Some [],
      files = (\<lambda>p. if p = ''difference_images.txt'' then Some two_lines else None),
      logs = []\<rparr>"

text \<open>
  An environment in which the subscription resolves and every attempt to list the
  registries raises.
\<close>

definition unreachable_env :: "nat env" where
  "unreachable_env =
     \<lparr>sh = (\<lambda>c x. (Returns (completed 0 (''sub-1'' @ [CHR 0x0A]) []), Suc x)),
      registries_list = (\<lambda>x. (Raises (RuntimeError ''ServiceRequestError''), Suc x)),
      GCR_PROJECT_ID = ''proj'', GCR_REGION = ''us'', MAX_CONCURRENT_JOBS = 5, RETRY_LIMIT = 3\<rparr>"

text \<open>A world whose difference file holds the single malformed line \<^verbatim>\<open>onlytwo:fields\<close>.\<close>

definition malformed_world :: "nat world" where
  "malformed_world =
     \<lparr>cloud = 0, processed_db = Some [],
      files = (\<lambda>p. if p = ''malformed.txt'' then Some [''onlytwo:fields''] else None),
      logs = []\<rparr>"





text \<open>
  An environment in which every command exits with status 1 and writes to its standard
  error the single byte \<^verbatim>\<open>0xFF\<close>, which is not valid UTF-8. The external state counts
  the commands run.
\<close>

definition garbled_env :: "nat env" where
  "garbled_env =
     \<lparr>sh = (\<lambda>c x. (Returns \<lparr>returncode = 1, stdout = [], stderr = Not_utf8 [CHR 0xFF]\<rparr>,
                     Suc x)),
      registries_list = (\<lambda>x. (Returns [''reg1''], Suc x)),
      GCR_PROJECT_ID = ''proj'', GCR_REGION = ''us'', MAX_CONCURRENT_JOBS = 5, RETRY_LIMIT = 3\<rparr>"

section \<open>Properties of the retry decorator\<close>

lemma cloud_logging [simp]: "cloud (logging lv msg w) = cloud w"
  by (simp add: logging_def)

lemma processed_db_logging [simp]: "processed_db (logging lv msg w) = processed_db w"
  by (simp add: logging_def)

lemma files_logging [simp]: "files (logging lv msg w) = files w"
  by (simp add: logging_def)

lemma logs_logging [simp]: "logs (logging lv msg w) = logs w @ [(lv, msg)]"
  by (simp add: logging_def)

text \<open>
  An operation that raises an \<^verbatim>\<open>Exception\<close> on each invocation, and counts its
  invocations somewhere in the external state (\<open>ctr\<close> reads the count), is invoked once
  per element of the range and the wrapper returns \<^verbatim>\<open>None\<close>.
\<close>

lemma wrapper_always_failing:
  assumes fails: "\<And>w. \<exists>e. fst (func w) = Raises e \<and> is_Exception e"
    and counts: "\<And>w. ctr (cloud (snd (func w))) = Suc (ctr (cloud w))"
  shows "fst (wrapper retries name func is w) = Returns None \<and>
         ctr (cloud (snd (wrapper retries name func is w))) = ctr (cloud w) + length is"
proof (induction "is" arbitrary: w)
  case Nil
  show ?case by simp
next
  case (Cons i "is")
  obtain e where e: "fst (func w) = Raises e" "is_Exception e"
    using fails [of w] by blast
  obtain r w' where rw: "func w = (r, w')" by (cases "func w")
  with e have r: "r = Raises e" by simp
  have c: "ctr (cloud w') = Suc (ctr (cloud w))"
    using counts [of w] rw by simp
  show ?case
    using Cons.IH [of "logging WARNING [S ''Retrying due to: '', E e, S '', attempt '',
                                   N (int i + 1), S ''/'', N retries] w'"] rw r e(2) c
    by simp
qed

lemma wrapper_at_most:
  assumes counts: "\<And>w. ctr (cloud (snd (func w))) = Suc (ctr (cloud w))"
  shows "ctr (cloud (snd (wrapper retries name func is w))) \<le> ctr (cloud w) + length is"
proof (induction "is" arbitrary: w)
  case Nil
  show ?case by simp
next
  case (Cons i "is")
  obtain r w' where rw: "func w = (r, w')" by (cases "func w")
  have c: "ctr (cloud w') = Suc (ctr (cloud w))"
    using counts [of w] rw by simp
  show ?case
  proof (cases r)
    case (Returns v)
    with rw c show ?thesis by simp
  next
    case (Raises e)
    show ?thesis
    proof (cases "is_Exception e")
      case True
      with Raises rw c
        Cons.IH [of "logging WARNING [S ''Retrying due to: '', E e, S '', attempt '',
                                   N (int i + 1), S ''/'', N retries] w'"]
      show ?thesis by simp
    next
      case False
      with Raises rw c show ?thesis by simp
    qed
  qed
qed

text \<open>
  C3. An operation that fails (raises an \<^verbatim>\<open>Exception\<close>) on each invocation and is run
  through the retry wrapper with three attempts is invoked exactly three times, and the
  wrapper returns the sentinel \<^verbatim>\<open>None\<close> instead of raising; with any number \<open>n\<close> of
  attempts, and whatever the operation does, it is invoked at most \<open>n\<close> times. The
  invocations are counted by the operation itself, in the external state.
\<close>

theorem retry_always_failing_three_attempts:
  assumes counts: "\<forall>w. ctr (cloud (snd (func w))) = Suc (ctr (cloud w))"
  shows "((\<forall>w. \<exists>e. fst (func w) = Raises e \<and> is_Exception e) \<longrightarrow>
            fst (retry 3 name func w) = Returns None \<and>
            ctr (cloud (snd (retry 3 name func w))) = ctr (cloud w) + 3) \<and>
         ctr (cloud (snd (retry n name func w))) \<le> ctr (cloud w) + nat n"
proof -
  have len3: "length (range_py 3) = 3" by (simp add: range_py_def)
  have lenn: "length (range_py n) = nat n" by (simp add: range_py_def)
  show ?thesis
    unfolding retry_def
    using wrapper_always_failing [of func ctr 3 name "range_py 3" w]
      wrapper_at_most [of ctr func n name "range_py n" w] counts len3 lenn
    by auto
qed

theorem retry_always_failing_three_attempts_witness:
  "fst (retry 3 ''list_tags'' flaky world0) = Returns None \<and>
   cloud (snd (retry 3 ''list_tags'' flaky world0)) = 3 \<and>
   cloud (snd (retry 5 ''list_tags'' flaky world0)) \<le> 5"
  using retry_always_failing_three_attempts [of "\<lambda>c. c" flaky "''list_tags''" world0 5]
  by (simp add: flaky_def world0_def)

section \<open>Properties of the ledger\<close>

lemma count_list_distinct:
  "distinct xs \<Longrightarrow> x \<in> set xs \<Longrightarrow> count_list xs x = 1"
  by (induction xs) auto

lemma insert_processed_table:
  assumes "processed_db w = Some t"
  shows "insert_processed a r tg d w =
         (Returns (), w\<lparr>processed_db := Some (if (a, r, tg, d) \<in> set t then t else t @ [(a, r, tg, d)])\<rparr>)"
  using assms by (simp add: insert_processed_def)

lemma insert_processed_keeps_key:
  assumes "processed_db w = Some t" "distinct t"
  shows "\<exists>t'. processed_db (snd (insert_processed a r tg d w)) = Some t' \<and> distinct t' \<and>
              set t' = insert (a, r, tg, d) (set t)"
  using assms by (auto simp: insert_processed_table)

lemma insert_all_keeps_rows:
  assumes "processed_db w = Some t" "x \<in> set t"
  shows "\<exists>t'. processed_db (insert_all rows w) = Some t' \<and> x \<in> set t'"
  using assms
proof (induction rows arbitrary: w t)
  case Nil
  then show ?case by simp
next
  case (Cons y rows)
  obtain a r tg d where y: "y = (a, r, tg, d)" by (cases y)
  have "\<exists>t1. processed_db (snd (insert_processed a r tg d w)) = Some t1 \<and> x \<in> set t1"
    using Cons.prems by (auto simp: insert_processed_table)
  then obtain t1 where "processed_db (snd (insert_processed a r tg d w)) = Some t1" "x \<in> set t1"
    by blast
  from Cons.IH [OF this] show ?case by (simp add: y)
qed

text \<open>
  C4. On a ledger whose table exists (its rows are distinct, by the primary key),
  inserting an identity twice raises nothing and leaves exactly one record of it in the
  full listing; the existence check answers true after the first insert, and still does
  after any further inserts, of this identity or of others.
\<close>

theorem ledger_insert_idempotent:
  assumes table: "processed_db w = Some t" and key: "distinct t"
  shows "fst (insert_processed a r tg d w) = Returns () \<and>
         fst (insert_processed a r tg d (snd (insert_processed a r tg d w))) = Returns () \<and>
         (\<exists>rows. get_all_processed (snd (insert_processed a r tg d (snd (insert_processed a r tg d w))))
                   = Returns rows \<and> count_list rows (a, r, tg, d) = 1) \<and>
         check_if_processed a r tg d (snd (insert_processed a r tg d w)) = Returns True \<and>
         check_if_processed a r tg d (insert_all others (snd (insert_processed a r tg d w)))
           = Returns True"
proof -
  let ?x = "(a, r, tg, d)"
  let ?t1 = "if ?x \<in> set t then t else t @ [?x]"
  let ?w1 = "w\<lparr>processed_db := Some ?t1\<rparr>"
  have w1: "insert_processed a r tg d w = (Returns (), ?w1)"
    using table by (rule insert_processed_table)
  have db1: "processed_db ?w1 = Some ?t1" by simp
  have in1: "?x \<in> set ?t1" by simp
  have d1: "distinct ?t1" using key by simp
  have w2: "insert_processed a r tg d ?w1 = (Returns (), ?w1)"
    using insert_processed_table [OF db1, of a r tg d] in1 by simp
  have cnt: "count_list ?t1 ?x = 1"
    using d1 in1 by (rule count_list_distinct)
  obtain t' where t': "processed_db (insert_all others ?w1) = Some t'" "?x \<in> set t'"
    using insert_all_keeps_rows [OF db1 in1] by blast
  show ?thesis
    unfolding w1 w2 fst_conv snd_conv
    using cnt t' by (simp add: get_all_processed_def check_if_processed_def del: distinct_append)
qed

theorem ledger_insert_idempotent_witness:
  "let w = init_db world0;
       w1 = snd (insert_processed ''reg'' ''app'' ''v1'' ''sha256:aa'' w);
       w2 = snd (insert_processed ''reg'' ''app'' ''v1'' ''sha256:aa'' w1)
   in processed_db w = Some [] \<and> distinct ([] :: row list) \<and>
      fst (insert_processed ''reg'' ''app'' ''v1'' ''sha256:aa'' w) = Returns () \<and>
      fst (insert_processed ''reg'' ''app'' ''v1'' ''sha256:aa'' w1) = Returns () \<and>
      get_all_processed w2 = Returns [(''reg'', ''app'', ''v1'', ''sha256:aa'')] \<and>
      check_if_processed ''reg'' ''app'' ''v1'' ''sha256:aa'' w1 = Returns True \<and>
      check_if_processed ''reg'' ''app'' ''v1'' ''sha256:aa''
        (insert_all [(''reg'', ''app'', ''v2'', ''sha256:bb''), (''reg'', ''app'', ''v1'', ''sha256:aa'')] w1)
        = Returns True"
  using ledger_insert_idempotent [of "init_db world0" "[]" "''reg''" "''app''" "''v1''" "''sha256:aa''"
      "[(''reg'', ''app'', ''v2'', ''sha256:bb''), (''reg'', ''app'', ''v1'', ''sha256:aa'')]"]
  by (simp add: init_db_def world0_def insert_processed_def get_all_processed_def check_if_processed_def)

section \<open>Properties of the chunks and of their dispatch\<close>











section \<open>Properties of the transfer and of the full scan\<close>

lemma retry_returns_first:
  assumes "0 < n" and "func w = (Returns v, w')"
  shows "retry n name func w = (Returns v, w')"
proof -
  have "range_py n = 0 # [1..<nat n]"
    using assms(1) by (simp add: range_py_def upt_conv_Cons)
  then show ?thesis using assms(2) by (simp add: retry_def)
qed

lemma wrapper_returns_none:
  assumes "\<And>w. (\<exists>w'. func w = (Returns None, w')) \<or>
                (\<exists>e w'. func w = (Raises e, w') \<and> is_Exception e)"
  shows "fst (wrapper n name func is w) = Returns None"
proof (induction "is" arbitrary: w)
  case Nil
  show ?case by simp
next
  case (Cons i "is")
  from assms [of w] show ?case
  proof
    assume "\<exists>w'. func w = (Returns None, w')"
    then show ?thesis by auto
  next
    assume "\<exists>e w'. func w = (Raises e, w') \<and> is_Exception e"
    then obtain e w' where f: "func w = (Raises e, w')" and e: "is_Exception e" by blast
    show ?thesis
      using f e
        Cons.IH [of "logging WARNING [S ''Retrying due to: '', E e, S '', attempt '',
                                     N (int i + 1), S ''/'', N n] w'"]
      by simp
  qed
qed

lemma decode_raises_Exception:
  assumes "decode b = Raises e"
  shows "is_Exception e"
  using assms by (cases b) auto

lemma copy_image_body_cases:
  assumes "\<forall>x. \<exists>p x'. sh env (gcrane_cp source_image dest_image) x = (Returns p, x')"
  shows "(\<exists>w'. copy_image_body env source_image dest_image w = (Returns None, w')) \<or>
         (\<exists>e w'. copy_image_body env source_image dest_image w = (Raises e, w') \<and>
                  is_Exception e)"
proof -
  obtain r x where s: "sh env (gcrane_cp source_image dest_image) (cloud w) = (r, x)"
    by (cases "sh env (gcrane_cp source_image dest_image) (cloud w)")
  show ?thesis
  proof (cases r)
    case (Raises e)
    with s assms show ?thesis by (metis outcome.distinct(1) prod.inject)
  next
    case (Returns p)
    show ?thesis
    proof (cases "decode (stderr p)")
      case (Raises e)
      then have "is_Exception e" by (rule decode_raises_Exception)
      with s Returns Raises show ?thesis
        by (simp add: copy_image_body_def subprocess_run_def)
    next
      case (Returns err)
      with s \<open>r = Returns p\<close> show ?thesis
        by (simp add: copy_image_body_def subprocess_run_def)
    qed
  qed
qed

lemma create_gcr_repository_body_cases:
  assumes "\<forall>x. \<exists>p x'. sh env (gcloud_create repo_name) x = (Returns p, x')"
  shows "(\<exists>w'. create_gcr_repository_body env repo_name w = (Returns None, w')) \<or>
         (\<exists>e w'. create_gcr_repository_body env repo_name w = (Raises e, w') \<and>
                  is_Exception e)"
proof -
  obtain r x where s: "sh env (gcloud_create repo_name) (cloud w) = (r, x)"
    by (cases "sh env (gcloud_create repo_name) (cloud w)")
  show ?thesis
  proof (cases r)
    case (Raises e)
    with s assms show ?thesis by (metis outcome.distinct(1) prod.inject)
  next
    case (Returns p)
    show ?thesis
    proof (cases "decode (stderr p)")
      case (Raises e)
      then have "is_Exception e" by (rule decode_raises_Exception)
      with s Returns Raises show ?thesis
        by (simp add: create_gcr_repository_body_def subprocess_run_def)
    next
      case (Returns err)
      with s \<open>r = Returns p\<close> show ?thesis
        by (simp add: create_gcr_repository_body_def subprocess_run_def)
    qed
  qed
qed

text \<open>
  C10. When the subprocess runs to its end, whatever status it exits with and whatever
  it writes to its standard error, \<^verbatim>\<open>copy_image\<close> and \<^verbatim>\<open>create_gcr_repository\<close> return
  \<^verbatim>\<open>None\<close>: the status is neither raised nor returned, so the value returned for a
  failed command is the value returned for a successful one. When the status is 0, or the standard error
  decodes, the first attempt returns and the status decides only the level and the text
  of the one record logged. When the status is not 0 and the standard error does not
  decode, \<^verbatim>\<open>decode()\<close> raises in the body, the wrapper of \<^verbatim>\<open>retry\<close> runs the command
  again, and \<^verbatim>\<open>None\<close> is returned all the same.
\<close>

theorem copy_and_create_swallow_exit_status:
  assumes gcrane: "\<forall>x. \<exists>p x'. sh env (gcrane_cp source_image dest_image) x = (Returns p, x')"
    and gcloud: "\<forall>x. \<exists>p x'. sh env (gcloud_create repo_name) x = (Returns p, x')"
  shows "fst (copy_image env source_image dest_image w) = Returns None \<and>
         fst (create_gcr_repository env repo_name w) = Returns None \<and>
         (0 < RETRY_LIMIT env \<and>
          sh env (gcrane_cp source_image dest_image) (cloud w) = (Returns p, x) \<and>
          (returncode p = 0 \<or> decode (stderr p) = Returns err) \<longrightarrow>
          copy_image env source_image dest_image w =
            (Returns None,
             logging (if returncode p = 0 then INFO else ERROR)
               (if returncode p = 0
                then [S ''Successfully copied '', S source_image, S '' to '', S dest_image]
                else [S ''Failed to copy '', S source_image, S '' to '', S dest_image, S '': '',
                      S err])
               (w\<lparr>cloud := x\<rparr>))) \<and>
         (0 < RETRY_LIMIT env \<and>
          sh env (gcloud_create repo_name) (cloud w) = (Returns p', x') \<and>
          (returncode p' = 0 \<or> decode (stderr p') = Returns err') \<longrightarrow>
          create_gcr_repository env repo_name w =
            (Returns None,
             logging (if returncode p' = 0 \<or> contains ''ALREADY_EXISTS'' err' then INFO
                      else ERROR)
               (if returncode p' = 0 then [S ''Successfully created repository '', S repo_name]
                else if contains ''ALREADY_EXISTS'' err'
                then [S ''Repository '', S repo_name, S '' already exists. Skipping creation.'']
                else [S ''Failed to create repository '', S repo_name, S '': '', S err'])
               (w\<lparr>cloud := x'\<rparr>)))"
proof -
  have none_c: "fst (copy_image env source_image dest_image w) = Returns None"
    unfolding copy_image_def retry_def
    by (rule wrapper_returns_none) (rule copy_image_body_cases [OF gcrane])
  have none_g: "fst (create_gcr_repository env repo_name w) = Returns None"
    unfolding create_gcr_repository_def retry_def
    by (rule wrapper_returns_none) (rule create_gcr_repository_body_cases [OF gcloud])
  have first_c: "copy_image env source_image dest_image w =
            (Returns None,
             logging (if returncode p = 0 then INFO else ERROR)
               (if returncode p = 0
                then [S ''Successfully copied '', S source_image, S '' to '', S dest_image]
                else [S ''Failed to copy '', S source_image, S '' to '', S dest_image, S '': '',
                      S err])
               (w\<lparr>cloud := x\<rparr>))"
    if limit: "0 < RETRY_LIMIT env"
      and run: "sh env (gcrane_cp source_image dest_image) (cloud w) = (Returns p, x)"
      and dec: "returncode p = 0 \<or> decode (stderr p) = Returns err"
  proof -
    have "copy_image_body env source_image dest_image w =
            (Returns None,
             logging (if returncode p = 0 then INFO else ERROR)
               (if returncode p = 0
                then [S ''Successfully copied '', S source_image, S '' to '', S dest_image]
                else [S ''Failed to copy '', S source_image, S '' to '', S dest_image, S '': '',
                      S err])
               (w\<lparr>cloud := x\<rparr>))"
      using run dec by (auto simp: copy_image_body_def subprocess_run_def)
    then show ?thesis
      unfolding copy_image_def using limit retry_returns_first by blast
  qed
  have first_g: "create_gcr_repository env repo_name w =
            (Returns None,
             logging (if returncode p' = 0 \<or> contains ''ALREADY_EXISTS'' err' then INFO
                      else ERROR)
               (if returncode p' = 0 then [S ''Successfully created repository '', S repo_name]
                else if contains ''ALREADY_EXISTS'' err'
                then [S ''Repository '', S repo_name, S '' already exists. Skipping creation.'']
                else [S ''Failed to create repository '', S repo_name, S '': '', S err'])
               (w\<lparr>cloud := x'\<rparr>))"
    if limit: "0 < RETRY_LIMIT env"
      and run: "sh env (gcloud_create repo_name) (cloud w) = (Returns p', x')"
      and dec: "returncode p' = 0 \<or> decode (stderr p') = Returns err'"
  proof -
    have "create_gcr_repository_body env repo_name w =
            (Returns None,
             logging (if returncode p' = 0 \<or> contains ''ALREADY_EXISTS'' err' then INFO
                      else ERROR)
               (if returncode p' = 0 then [S ''Successfully created repository '', S repo_name]
                else if contains ''ALREADY_EXISTS'' err'
                then [S ''Repository '', S repo_name, S '' already exists. Skipping creation.'']
                else [S ''Failed to create repository '', S repo_name, S '': '', S err'])
               (w\<lparr>cloud := x'\<rparr>))"
      using run dec by (auto simp: create_gcr_repository_body_def subprocess_run_def)
    then show ?thesis
      unfolding create_gcr_repository_def using limit retry_returns_first by blast
  qed
  from none_c none_g first_c first_g show ?thesis by blast
qed

theorem copy_and_create_swallow_exit_status_witness:
  "(\<forall>x. \<exists>p x'. sh garbled_env (gcrane_cp ''reg1.azurecr.io/app:v1''
                               ''us-docker.pkg.dev/proj/reg1/app:v1'') x = (Returns p, x')) \<and>
   (\<forall>x. \<exists>p x'. sh garbled_env (gcloud_create ''reg1'') x = (Returns p, x')) \<and>
   fst (copy_image garbled_env ''reg1.azurecr.io/app:v1'' ''us-docker.pkg.dev/proj/reg1/app:v1''
          world0) = Returns None \<and>
   cloud (snd (copy_image garbled_env ''reg1.azurecr.io/app:v1''
                 ''us-docker.pkg.dev/proj/reg1/app:v1'' world0)) = 3 \<and>
   fst (create_gcr_repository garbled_env ''reg1'' world0) = Returns None \<and>
   cloud (snd (create_gcr_repository garbled_env ''reg1'' world0)) = 3 \<and>
   0 < RETRY_LIMIT failing_copy_env \<and>
   sh failing_copy_env (gcrane_cp ''reg1.azurecr.io/app:v1'' ''us-docker.pkg.dev/proj/reg1/app:v1'')
     (cloud world0) = (Returns (completed 1 [] ''UNAUTHORIZED''), 1) \<and>
   decode (stderr (completed 1 [] ''UNAUTHORIZED'')) = Returns ''UNAUTHORIZED'' \<and>
   copy_image failing_copy_env ''reg1.azurecr.io/app:v1'' ''us-docker.pkg.dev/proj/reg1/app:v1'' world0 =
     (Returns None,
      logging ERROR [S ''Failed to copy '', S ''reg1.azurecr.io/app:v1'', S '' to '',
                     S ''us-docker.pkg.dev/proj/reg1/app:v1'', S '': '', S ''UNAUTHORIZED'']
        (world0\<lparr>cloud := 1\<rparr>)) \<and>
   sh failing_copy_env (gcloud_create ''reg1'') (cloud world0) = (Returns (completed 0 [] []), 1) \<and>
   create_gcr_repository failing_copy_env ''reg1'' world0 =
     (Returns None,
      logging INFO [S ''Successfully created repository '', S ''reg1''] (world0\<lparr>cloud := 1\<rparr>))"
proof -
  have g1: "\<forall>x. \<exists>p x'. sh garbled_env (gcrane_cp ''reg1.azurecr.io/app:v1''
                               ''us-docker.pkg.dev/proj/reg1/app:v1'') x = (Returns p, x')"
    by (simp add: garbled_env_def)
  have g2: "\<forall>x. \<exists>p x'. sh garbled_env (gcloud_create ''reg1'') x = (Returns p, x')"
    by (simp add: garbled_env_def)
  have f1: "\<forall>x. \<exists>p x'. sh failing_copy_env (gcrane_cp ''reg1.azurecr.io/app:v1''
                               ''us-docker.pkg.dev/proj/reg1/app:v1'') x = (Returns p, x')"
    by (simp add: failing_copy_env_def failing_copy_sh_def gcrane_cp_def)
  have f2: "\<forall>x. \<exists>p x'. sh failing_copy_env (gcloud_create ''reg1'') x = (Returns p, x')"
    by (simp add: failing_copy_env_def failing_copy_sh_def gcloud_create_def)
  have r3: "range_py 3 = [0, 1, 2]"
    by (simp add: range_py_def upt_conv_Cons)
  have n1: "cloud (snd (copy_image garbled_env ''reg1.azurecr.io/app:v1''
                 ''us-docker.pkg.dev/proj/reg1/app:v1'' world0)) = 3"
    by (simp add: copy_image_def retry_def r3 copy_image_body_def subprocess_run_def
        garbled_env_def world0_def)
  have n2: "cloud (snd (create_gcr_repository garbled_env ''reg1'' world0)) = 3"
    by (simp add: create_gcr_repository_def retry_def r3 create_gcr_repository_body_def
        subprocess_run_def garbled_env_def world0_def)
  have l: "0 < RETRY_LIMIT failing_copy_env" by (simp add: failing_copy_env_def)
  have a: "sh failing_copy_env
             (gcrane_cp ''reg1.azurecr.io/app:v1'' ''us-docker.pkg.dev/proj/reg1/app:v1'')
             (cloud world0) = (Returns (completed 1 [] ''UNAUTHORIZED''), 1)"
    by (simp add: failing_copy_env_def failing_copy_sh_def gcrane_cp_def world0_def)
  have d: "decode (stderr (completed 1 [] ''UNAUTHORIZED'')) = Returns ''UNAUTHORIZED''"
    by (simp add: completed_def)
  have b: "sh failing_copy_env (gcloud_create ''reg1'') (cloud world0) =
           (Returns (completed 0 [] []), 1)"
    by (simp add: failing_copy_env_def failing_copy_sh_def gcloud_create_def world0_def)
  have rc: "returncode (completed 1 [] ''UNAUTHORIZED'') = 1" "returncode (completed 0 [] []) = 0"
    by (simp_all add: completed_def)
  note t1 = copy_and_create_swallow_exit_status [OF g1 g2, of world0]
  note t2 = copy_and_create_swallow_exit_status [OF f1 f2, of world0
      "completed 1 [] ''UNAUTHORIZED''" 1 "''UNAUTHORIZED''" "completed 0 [] []" 1 "[]"]
  show ?thesis
    using t1 t2 g1 g2 n1 n2 l a d b rc by simp
qed

text \<open>
  C1. The claim that a record is inserted only after a copy that succeeded fails on the
  code. Here \<^verbatim>\<open>gcrane cp\<close> exits with status 1 for the only tag of the repository:
  \<^verbatim>\<open>process_repository\<close> logs the failure and still inserts the record, and the
  existence check answers true afterwards.
\<close>

theorem ledger_records_failed_copy:  "fst (process_repository failing_copy_env ''reg1'' ''app'' (init_db world0)) = Returns () \<and>
   check_if_processed ''reg1'' ''app'' ''v1'' ''sha256:d1''
     (snd (process_repository failing_copy_env ''reg1'' ''app'' (init_db world0))) = Returns True \<and>
   logs (snd (process_repository failing_copy_env ''reg1'' ''app'' (init_db world0))) =
     [(INFO, [S ''Successfully created repository '', S ''reg1'']),
      (ERROR, [S ''Failed to copy '', S ''reg1.azurecr.io/app:v1'', S '' to '',
               S ''us-docker.pkg.dev/proj/reg1/app:v1'', S '': '', S ''UNAUTHORIZED''])]"
proof -
  have r: "range_py 3 = [0, 1, 2]" by (simp add: range_py_def upt_conv_Cons)
  have tags: "split_ws [CHR ''v'', CHR ''1'', CHR 0x0A] = [''v1'']"
    by (simp add: split_ws_def isspace_def)
  have dig: "strip [CHR ''s'', CHR ''h'', CHR ''a'', CHR ''2'', CHR ''5'', CHR ''6'', CHR '':'',
                     CHR ''d'', CHR ''1'', CHR 0x0A] = ''sha256:d1''"
    by (simp add: strip_def isspace_def)
  have run: "process_repository failing_copy_env ''reg1'' ''app'' (init_db world0) =
     (Returns (),
      \<lparr>cloud = 4, processed_db = Some [(''reg1'', ''app'', ''v1'', ''sha256:d1'')],
       files = (\<lambda>p. None),
       logs = [(INFO, [S ''Successfully created repository '', S ''reg1'']),
               (ERROR, [S ''Failed to copy '', S ''reg1.azurecr.io/app:v1'', S '' to '',
                        S ''us-docker.pkg.dev/proj/reg1/app:v1'', S '': '', S ''UNAUTHORIZED''])]\<rparr>)"
    by (simp add: process_repository_def process_repository_body_def list_tags_def
        create_gcr_repository_def create_gcr_repository_body_def get_tag_digest_def
        copy_image_def copy_image_body_def retry_def r check_output_def subprocess_run_check_def
        subprocess_run_def failing_copy_env_def failing_copy_sh_def completed_def gcloud_create_def
        gcrane_cp_def source_address_def dest_address_def tags dig init_db_def world0_def
        check_if_processed_def insert_processed_def logging_def)
  show ?thesis unfolding run by (simp add: check_if_processed_def)
qed

section \<open>Properties of the replay and of the exit status\<close>

text \<open>
  C2. The claim that every well-formed line of the difference file gets a ledger record
  parsed from that line fails on the code. The file here has two well-formed lines, the
  repository exists and both copies succeed: the only record inserted is that of the
  last line, because the insert stands after the loop and reads the variables the loop
  left behind; the first line has no record.
\<close>

theorem replay_records_last_line_only:
  "3 \<le> length (split_colon (strip (two_lines ! 0))) \<and>
   3 \<le> length (split_colon (strip (two_lines ! 1))) \<and>
   fst (copy_images_to_gcr replay_env ''difference_images.txt'' replay_world) = Returns () \<and>
   processed_db (snd (copy_images_to_gcr replay_env ''difference_images.txt'' replay_world)) =
     Some [(''reg1'', ''app'', ''v2'', ''-sha256:d2'')] \<and>
   check_if_processed ''reg1'' ''app'' ''v1'' ''-sha256:d1''
     (snd (copy_images_to_gcr replay_env ''difference_images.txt'' replay_world)) = Returns False"
proof -
  have r: "range_py 3 = [0, 1, 2]" by (simp add: range_py_def upt_conv_Cons)
  have st1: "strip (''reg1:app:v1:-sha256:d1'' @ [CHR 0x0A]) = ''reg1:app:v1:-sha256:d1''"
    by (simp add: strip_def isspace_def)
  have st2: "strip (''reg1:app:v2:-sha256:d2'' @ [CHR 0x0A]) = ''reg1:app:v2:-sha256:d2''"
    by (simp add: strip_def isspace_def)
  have sc1: "split_colon ''reg1:app:v1:-sha256:d1'' = [''reg1'', ''app'', ''v1'', ''-sha256'', ''d1'']"
    by (simp add: split_colon_def)
  have sc2: "split_colon ''reg1:app:v2:-sha256:d2'' = [''reg1'', ''app'', ''v2'', ''-sha256'', ''d2'']"
    by (simp add: split_colon_def)
  have ens: "\<And>w. ensure_gar_repository replay_env ''proj'' ''reg1'' w =
      (Returns (), logging PRINT [S ''Repository '', S ''reg1'', S '' already exists.'']
                     (w\<lparr>cloud := Suc (cloud w)\<rparr>))"
    by (simp add: ensure_gar_repository_def subprocess_run_check_def subprocess_run_def
        replay_env_def replay_sh_def completed_def strip_def isspace_def)
  have cp: "\<And>s d w. copy_image replay_env s d w =
      (Returns None, logging INFO [S ''Successfully copied '', S s, S '' to '', S d]
                       (w\<lparr>cloud := Suc (cloud w)\<rparr>))"
    by (simp add: copy_image_def copy_image_body_def retry_def r subprocess_run_def
        replay_env_def replay_sh_def completed_def gcrane_cp_def)
  have proj: "GCR_PROJECT_ID replay_env = ''proj''" by (simp add: replay_env_def)
  have reg: "GCR_REGION replay_env = ''us''" by (simp add: replay_env_def)
  have c0: "cloud replay_world = 0" and l0: "logs replay_world = []"
    and d0: "processed_db replay_world = Some []"
    and f0: "files replay_world ''difference_images.txt'' = Some two_lines"
    by (simp_all add: replay_world_def)
  have loop: "replay_lines replay_env
                [''reg1:app:v1:-sha256:d1'' @ [CHR 0x0A], ''reg1:app:v2:-sha256:d2'' @ [CHR 0x0A]]
                unbound_vars replay_world =
     (Returns \<lparr>original_image = ''reg1:app:v2:-sha256:d2'',
               parts = [''reg1'', ''app'', ''v2'', ''-sha256'', ''d2''],
               futures = [Returns None, Returns None]\<rparr>,
      replay_world
        \<lparr>cloud := 4,
         logs := [(PRINT, [S ''Repository '', S ''reg1'', S '' already exists.'']),
               (INFO, [S ''Successfully copied '', S ''reg1.azurecr.io/app:v1'', S '' to '',
                       S ''us-docker.pkg.dev/proj/reg1/app:v1'']),
               (PRINT, [S ''Repository '', S ''reg1'', S '' already exists.'']),
               (INFO, [S ''Successfully copied '', S ''reg1.azurecr.io/app:v2'', S '' to '',
                       S ''us-docker.pkg.dev/proj/reg1/app:v2''])]\<rparr>)"
    unfolding replay_lines.simps st1 st2 sc1 sc2 proj
    by (simp add: ens cp unbound_vars_def logging_def c0 l0
        source_address_def dest_address_def proj reg)
  have ne: "two_lines \<noteq> []" by (simp add: two_lines_def)
  have rp: "fst (replay replay_env two_lines replay_world) = Returns () \<and>
            processed_db (snd (replay replay_env two_lines replay_world)) =
              Some [(''reg1'', ''app'', ''v2'', ''-sha256:d2'')]"
    unfolding replay_def two_lines_def loop
    by (simp add: record_last_def sc2 insert_processed_def d0 report_processed_def
        get_all_processed_def logging_def)
  obtain W where W: "replay replay_env two_lines replay_world = (Returns (), W)"
    and db: "processed_db W = Some [(''reg1'', ''app'', ''v2'', ''-sha256:d2'')]"
    using rp by (cases "replay replay_env two_lines replay_world") simp
  have run: "processed_db (snd (copy_images_to_gcr replay_env ''difference_images.txt'' replay_world)) =
     Some [(''reg1'', ''app'', ''v2'', ''-sha256:d2'')] \<and>
     fst (copy_images_to_gcr replay_env ''difference_images.txt'' replay_world) = Returns ()"
    unfolding copy_images_to_gcr_def copy_images_to_gcr_body_def f0 option.case
    using ne by (simp add: W db)
  have wf: "3 \<le> length (split_colon (strip (two_lines ! 0))) \<and>
            3 \<le> length (split_colon (strip (two_lines ! 1)))"
  proof -
    have n0: "two_lines ! 0 = ''reg1:app:v1:-sha256:d1'' @ [CHR 0x0A]"
      and n1: "two_lines ! 1 = ''reg1:app:v2:-sha256:d2'' @ [CHR 0x0A]"
      by (simp_all add: two_lines_def)
    show ?thesis unfolding n0 n1 st1 st2 sc1 sc2 by simp
  qed
  show ?thesis
    using run wf by (simp add: check_if_processed_def)
qed

text \<open>
  C9. The claim that, the subscription resolved and no difference file named, the
  process exits 0 fails on the code. When every attempt to list the registries raises,
  the retry wrapper returns \<^verbatim>\<open>None\<close>, \<^verbatim>\<open>chunkify\<close> takes \<^verbatim>\<open>len(None)\<close>, and the
  \<^verbatim>\<open>TypeError\<close> leaves the script: the exit status is 1.
\<close>

theorem listing_failure_exits_nonzero:
  "fst (get_azure_subscription_id unreachable_env world0) = Returns (Some ''sub-1'') \<and>
   fst (script sched unreachable_env None world0) = Raises no_len \<and>
   exit_status (fst (script sched unreachable_env None world0)) = 1"
proof -
  have r: "range_py 3 = [0, 1, 2]" by (simp add: range_py_def upt_conv_Cons)
  have sub: "get_azure_subscription_id unreachable_env world0 =
             (Returns (Some ''sub-1''), world0\<lparr>cloud := 1\<rparr>)"
    by (simp add: get_azure_subscription_id_def check_output_def subprocess_run_check_def
        subprocess_run_def unreachable_env_def completed_def strip_def isspace_def world0_def)
  have lst: "\<And>w. fst (list_acr_registries unreachable_env w) = Returns None"
    by (simp add: list_acr_registries_def retry_def r unreachable_env_def)
  have full: "fst (full_scan sched unreachable_env w) = Raises no_len" for w
  proof -
    obtain w1 where l: "list_acr_registries unreachable_env (init_db w) = (Returns None, w1)"
      using lst [of "init_db w"]
      by (cases "list_acr_registries unreachable_env (init_db w)") simp
    show ?thesis unfolding full_scan_def l by simp
  qed
  have "fst (script sched unreachable_env None world0) = Raises no_len"
    unfolding script_def sub by (simp add: falsy_def full)
  then show ?thesis using sub by (simp add: no_len_def)
qed

section \<open>Malformed lines of the difference file\<close>

lemma wrapper_keeps_db:
  assumes "\<And>w. processed_db (snd (func w)) = processed_db w"
  shows "processed_db (snd (wrapper n name func is w)) = processed_db w"
proof (induction "is" arbitrary: w)
  case Nil
  show ?case by simp
next
  case (Cons i "is")
  obtain r w' where rw: "func w = (r, w')" by (cases "func w")
  have db: "processed_db w' = processed_db w" using assms [of w] rw by simp
  show ?case
  proof (cases r)
    case (Returns v)
    with rw db show ?thesis by simp
  next
    case (Raises e)
    show ?thesis
    proof (cases "is_Exception e")
      case True
      with Raises rw db
        Cons.IH [of "logging WARNING [S ''Retrying due to: '', E e, S '', attempt '',
                                   N (int i + 1), S ''/'', N n] w'"]
      show ?thesis by simp
    next
      case False
      with Raises rw db show ?thesis by simp
    qed
  qed
qed

lemma subprocess_run_keeps_db:
  "processed_db (snd (subprocess_run env c w)) = processed_db w"
  by (simp add: subprocess_run_def split: prod.splits)

lemma copy_image_keeps_db:
  "processed_db (snd (copy_image env s d w)) = processed_db w"
proof -
  have "processed_db (snd (copy_image_body env s d w')) = processed_db w'" for w'
    using subprocess_run_keeps_db [of env "gcrane_cp s d" w']
    by (auto simp: copy_image_body_def split: prod.splits outcome.splits)
  then show ?thesis
    unfolding copy_image_def retry_def by (rule wrapper_keeps_db)
qed

lemma ensure_gar_repository_keeps_db:
  "processed_db (snd (ensure_gar_repository env p r w)) = processed_db w"
proof -
  define c where "c = Argv [''gcloud'', ''artifacts'', ''repositories'', ''list'',
                    ''--project'', p, ''--location'', GCR_REGION env,
                    ''--filter'',
                    ''name:projects/'' @ p @ ''/locations/'' @ GCR_REGION env @
                      ''/repositories/'' @ r,
                    ''--format'', ''value(name)'']"
  obtain r0 w0 where run: "subprocess_run env c w = (r0, w0)"
    by (cases "subprocess_run env c w")
  have db0: "processed_db w0 = processed_db w"
    using subprocess_run_keeps_db [of env c w] run by simp
  obtain r1 w1 where chk: "subprocess_run_check env c w = (r1, w1)"
    by (cases "subprocess_run_check env c w")
  have db1: "processed_db w1 = processed_db w"
    using chk run db0
    by (cases r0) (auto simp: subprocess_run_check_def split: if_splits)
  show ?thesis
    unfolding ensure_gar_repository_def c_def [symmetric] chk
    using db1 by (cases r1) simp_all
qed

lemma replay_lines_keeps_db:
  "processed_db (snd (replay_lines env ls vars w)) = processed_db w"
proof (induction ls arbitrary: vars w)
  case Nil
  show ?case by simp
next
  case (Cons l ls)
  show ?case
  proof (cases "3 \<le> length (split_colon (strip l))")
    case False
    then show ?thesis using Cons.IH by simp
  next
    case True
    obtain r w1 where e: "ensure_gar_repository env (GCR_PROJECT_ID env)
                            (split_colon (strip l) ! 0) w = (r, w1)"
      by (cases "ensure_gar_repository env (GCR_PROJECT_ID env) (split_colon (strip l) ! 0) w")
    have db1: "processed_db w1 = processed_db w"
      using ensure_gar_repository_keeps_db [of env "GCR_PROJECT_ID env" "split_colon (strip l) ! 0" w] e
      by simp
    show ?thesis
    proof (cases r)
      case (Raises x)
      with True e db1 show ?thesis by simp
    next
      case (Returns u)
      obtain f w2 where c: "copy_image env
                     (source_address (split_colon (strip l) ! 0)
                        (split_colon (strip l) ! 1) (split_colon (strip l) ! 2))
                     (dest_address env (split_colon (strip l) ! 0)
                        (split_colon (strip l) ! 1) (split_colon (strip l) ! 2)) w1 = (f, w2)"
        by (cases "copy_image env
                     (source_address (split_colon (strip l) ! 0)
                        (split_colon (strip l) ! 1) (split_colon (strip l) ! 2))
                     (dest_address env (split_colon (strip l) ! 0)
                        (split_colon (strip l) ! 1) (split_colon (strip l) ! 2)) w1")
      have db2: "processed_db w2 = processed_db w1"
        using copy_image_keeps_db [of env _ _ w1] c by (metis snd_conv)
      show ?thesis using True e Returns c db1 db2 Cons.IH by simp
    qed
  qed
qed

lemma replay_results_keeps_db:
  "processed_db (snd (replay_results rs w)) = processed_db w"
  by (induction rs w rule: replay_results.induct) simp_all

lemma report_processed_keeps_db:
  "processed_db (snd (report_processed w)) = processed_db w"
proof -
  have "processed_db (foldl (\<lambda>w' entry. logging PRINT [S ''Processed: '', R entry] w') w' rows)
        = processed_db w'" for rows and w' :: "'a world"
    by (induction rows arbitrary: w') simp_all
  then show ?thesis
    by (simp add: report_processed_def split: outcome.splits)
qed

lemma report_processed_keeps_cloud:
  "cloud (snd (report_processed w)) = cloud w"
proof -
  have "cloud (foldl (\<lambda>w' entry. logging PRINT [S ''Processed: '', R entry] w') w' rows)
        = cloud w'" for rows and w' :: "'a world"
    by (induction rows arbitrary: w') simp_all
  then show ?thesis
    by (simp add: report_processed_def split: outcome.splits)
qed

lemma replay_lines_append:
  "replay_lines env (ls1 @ ls2) vars w =
     (case replay_lines env ls1 vars w of
        (Raises e, w1) \<Rightarrow> (Raises e, w1)
      | (Returns v1, w1) \<Rightarrow> replay_lines env ls2 v1 w1)"
proof (induction ls1 arbitrary: vars w)
  case Nil
  show ?case by simp
next
  case (Cons l ls1)
  show ?case
    by (simp add: Cons.IH split: prod.splits outcome.splits)
qed

lemma replay_lines_rebinds:
  assumes "ls \<noteq> []" and "futures v = futures v'"
  shows "replay_lines env ls v w = replay_lines env ls v' w"
  using assms by (cases ls) (simp_all split: prod.splits outcome.splits)

lemma replay_lines_skip:
  assumes "length (split_colon (strip L)) < 3" and "ls \<noteq> []"
  shows "replay_lines env (L # ls) v w = replay_lines env ls v w"
proof -
  have "replay_lines env (L # ls) v w =
        replay_lines env ls
          \<lparr>original_image = strip L, parts = split_colon (strip L), futures = futures v\<rparr> w"
    using assms(1) by simp
  also have "\<dots> = replay_lines env ls v w"
    using assms(2) by (rule replay_lines_rebinds) simp
  finally show ?thesis .
qed

lemma record_last_malformed:
  assumes "length (split_colon (original_image vars)) < 3"
  shows "record_last vars w = (Returns (), w)"
  using assms by (simp add: record_last_def)

text \<open>
  C7. A line of the difference file with fewer than three colon-delimited fields is
  skipped, whatever the environment does. With further lines after it, the replay is the
  replay of the file without the line: same outcome and same world, so no command, no
  copy and no insert comes from the line. As the last line, it leaves the loop in the state
  the lines before it produced, no insert follows, and the ledger is the one the run
  started with. A file that holds only this line runs no command, changes no record and
  \<^verbatim>\<open>copy_images_to_gcr\<close> returns without raising.
\<close>

theorem malformed_line_is_skipped:
  assumes malformed: "length (split_colon (strip L)) < 3"
  shows "(ls2 \<noteq> [] \<longrightarrow> replay env (ls1 @ L # ls2) w = replay env (ls1 @ ls2) w) \<and>
         replay env (ls1 @ [L]) w =
           (case replay_lines env ls1 unbound_vars w of
              (Raises e, w1) \<Rightarrow> (Raises e, w1)
            | (Returns vars, w1) \<Rightarrow>
                (case replay_results (futures vars) w1 of
                   (Raises e, w2) \<Rightarrow> (Raises e, w2)
                 | (Returns u, w2) \<Rightarrow> report_processed w2)) \<and>
         processed_db (snd (replay env (ls1 @ [L]) w)) = processed_db w \<and>
         (files w difference_file = Some [L] \<longrightarrow>
            fst (copy_images_to_gcr env difference_file w) = Returns () \<and>
            cloud (snd (copy_images_to_gcr env difference_file w)) = cloud w \<and>
            processed_db (snd (copy_images_to_gcr env difference_file w)) = processed_db w)"
proof -
  have a: "replay env (ls1 @ L # ls2) w = replay env (ls1 @ ls2) w" if "ls2 \<noteq> []"
  proof -
    have "replay_lines env (ls1 @ L # ls2) unbound_vars w =
          replay_lines env (ls1 @ ls2) unbound_vars w"
    proof -
      obtain r1 w1 where l1: "replay_lines env ls1 unbound_vars w = (r1, w1)"
        by (cases "replay_lines env ls1 unbound_vars w")
      show ?thesis
      proof (cases r1)
        case (Raises e)
        then show ?thesis
          unfolding replay_lines_append [of env ls1] l1 by simp
      next
        case (Returns v1)
        then show ?thesis
          unfolding replay_lines_append [of env ls1] l1
          using replay_lines_skip [OF malformed that, of env v1 w1] by simp
      qed
    qed
    then show ?thesis by (simp add: replay_def)
  qed
  have last: "replay_lines env (ls1 @ [L]) unbound_vars w =
      (case replay_lines env ls1 unbound_vars w of
         (Raises e, w1) \<Rightarrow> (Raises e, w1)
       | (Returns v1, w1) \<Rightarrow>
           (Returns \<lparr>original_image = strip L, parts = split_colon (strip L),
                     futures = futures v1\<rparr>, w1))"
  proof -
    have one: "replay_lines env [L] v w' =
        (Returns \<lparr>original_image = strip L, parts = split_colon (strip L),
                  futures = futures v\<rparr>, w')" for v and w' :: "'a world"
      using malformed by simp
    show ?thesis
      unfolding replay_lines_append [of env ls1] one ..
  qed
  have b: "replay env (ls1 @ [L]) w =
           (case replay_lines env ls1 unbound_vars w of
              (Raises e, w1) \<Rightarrow> (Raises e, w1)
            | (Returns vars, w1) \<Rightarrow>
                (case replay_results (futures vars) w1 of
                   (Raises e, w2) \<Rightarrow> (Raises e, w2)
                 | (Returns u, w2) \<Rightarrow> report_processed w2))"
    unfolding replay_def last
    using malformed by (simp add: record_last_malformed split: prod.splits outcome.splits)
  have c: "processed_db (snd (replay env (ls1 @ [L]) w)) = processed_db w"
  proof -
    obtain r1 w1 where l1: "replay_lines env ls1 unbound_vars w = (r1, w1)"
      by (cases "replay_lines env ls1 unbound_vars w")
    have d1: "processed_db w1 = processed_db w"
      using replay_lines_keeps_db [of env ls1 unbound_vars w] l1 by simp
    show ?thesis
    proof (cases r1)
      case (Raises e)
      with l1 d1 show ?thesis unfolding b by simp
    next
      case (Returns vars)
      obtain r2 w2 where l2: "replay_results (futures vars) w1 = (r2, w2)"
        by (cases "replay_results (futures vars) w1")
      have d2: "processed_db w2 = processed_db w1"
        using replay_results_keeps_db [of "futures vars" w1] l2 by simp
      show ?thesis
        unfolding b using l1 Returns l2 d1 d2 report_processed_keeps_db [of w2]
        by (cases r2) simp_all
    qed
  qed
  have single: "replay env [L] w = report_processed w"
    using b [unfolded] malformed
    by (simp add: replay_def record_last_malformed unbound_vars_def)
  have d: "fst (copy_images_to_gcr env difference_file w) = Returns () \<and>
           cloud (snd (copy_images_to_gcr env difference_file w)) = cloud w \<and>
           processed_db (snd (copy_images_to_gcr env difference_file w)) = processed_db w"
    if "files w difference_file = Some [L]"
  proof -
    have body: "copy_images_to_gcr_body env difference_file w = report_processed w"
      using that single by (simp add: copy_images_to_gcr_body_def)
    obtain r w' where rp: "report_processed w = (r, w')"
      by (cases "report_processed w")
    have keeps: "cloud w' = cloud w" "processed_db w' = processed_db w"
      using report_processed_keeps_cloud [of w] report_processed_keeps_db [of w] rp by simp_all
    have "r = Returns () \<or> r = Raises no_such_table"
      using rp by (auto simp: report_processed_def get_all_processed_def split: option.splits)
    then show ?thesis
      unfolding copy_images_to_gcr_def body rp
      using keeps by (auto simp: no_such_table_def)
  qed
  show ?thesis using a b c d by blast
qed

theorem malformed_line_is_skipped_witness:
  "length (split_colon (strip ''onlytwo:fields'')) < 3 \<and>
   replay replay_env ([two_lines ! 0] @ ''onlytwo:fields'' # [two_lines ! 1]) replay_world =
     replay replay_env ([two_lines ! 0] @ [two_lines ! 1]) replay_world \<and>
   processed_db (snd (replay replay_env ([two_lines ! 0] @ [''onlytwo:fields'']) replay_world)) =
     Some [] \<and>
   files malformed_world ''malformed.txt'' = Some [''onlytwo:fields''] \<and>
   fst (copy_images_to_gcr replay_env ''malformed.txt'' malformed_world) = Returns () \<and>
   cloud (snd (copy_images_to_gcr replay_env ''malformed.txt'' malformed_world)) = 0 \<and>
   processed_db (snd (copy_images_to_gcr replay_env ''malformed.txt'' malformed_world)) = Some []"
proof -
  have h: "length (split_colon (strip ''onlytwo:fields'')) < 3"
    by (simp add: split_colon_def strip_def isspace_def)
  have f: "files malformed_world ''malformed.txt'' = Some [''onlytwo:fields'']"
    and c: "cloud malformed_world = 0" and d: "processed_db malformed_world = Some []"
    and d': "processed_db replay_world = Some []"
    by (simp_all add: malformed_world_def replay_world_def)
  note T1 = malformed_line_is_skipped [OF h, where env = replay_env and w = replay_world
      and ?ls1.0 = "[two_lines ! 0]" and ?ls2.0 = "[two_lines ! 1]"
      and difference_file = "''malformed.txt''"]
  note T2 = malformed_line_is_skipped [OF h, where env = replay_env and w = malformed_world
      and ?ls1.0 = "[]" and ?ls2.0 = "[]" and difference_file = "''malformed.txt''"]
  have e1: "replay replay_env ([two_lines ! 0] @ ''onlytwo:fields'' # [two_lines ! 1]) replay_world =
            replay replay_env ([two_lines ! 0] @ [two_lines ! 1]) replay_world"
    using T1 [THEN conjunct1] by (rule mp) simp
  have e2: "processed_db (snd (replay replay_env ([two_lines ! 0] @ [''onlytwo:fields'']) replay_world)) =
            Some []"
    using T1 [THEN conjunct2, THEN conjunct2, THEN conjunct1] d' by (rule trans)
  have e3: "fst (copy_images_to_gcr replay_env ''malformed.txt'' malformed_world) = Returns () \<and>
            cloud (snd (copy_images_to_gcr replay_env ''malformed.txt'' malformed_world)) =
              cloud malformed_world \<and>
            processed_db (snd (copy_images_to_gcr replay_env ''malformed.txt'' malformed_world)) =
              processed_db malformed_world"
    using T2 [THEN conjunct2, THEN conjunct2, THEN conjunct2] f by (rule mp)
  show ?thesis
    using h e1 e2 e3 f unfolding c d by (intro conjI) (elim conjE, assumption)+
qed

section \<open>Properties of the comparison of inventories\<close>

lemma first_colon_unique:
  assumes "colon_free a" and "colon_free a'" and "a @ CHR '':'' # x = a' @ CHR '':'' # x'"
  shows "a = a' \<and> x = x'"
  using assms
proof (induction a arbitrary: a')
  case Nil
  then show ?case by (cases a') (auto simp: colon_free_def)
next
  case (Cons c a)
  show ?case
  proof (cases a')
    case Nil
    with Cons.prems show ?thesis by (auto simp: colon_free_def)
  next
    case (Cons c' b)
    with Cons.prems have "c = c'" and "a @ CHR '':'' # x = b @ CHR '':'' # x'"
      and "colon_free a" and "colon_free b"
      by (auto simp: colon_free_def)
    with Cons.IH [of b] Cons show ?thesis by simp
  qed
qed

text \<open>
  Two identities whose registry, repository and tag hold no colon have the same line
  exactly when their four fields are equal: comparing lines is comparing identities.
\<close>

lemma image_identifier_inj:
  assumes "colon_free r" "colon_free p" "colon_free t"
    and "colon_free r'" "colon_free p'" "colon_free t'"
    and eq: "image_identifier (r, p, t, d) = image_identifier (r', p', t', d')"
  shows "(r, p, t, d) = (r', p', t', d')"
proof -
  from eq have 1: "r @ CHR '':'' # (p @ '':'' @ t @ '':-'' @ d) =
                   r' @ CHR '':'' # (p' @ '':'' @ t' @ '':-'' @ d')"
    by (simp add: image_identifier_def)
  from first_colon_unique [OF assms(1) assms(4) 1]
  have r: "r = r'" and 2: "p @ CHR '':'' # (t @ '':-'' @ d) = p' @ CHR '':'' # (t' @ '':-'' @ d')"
    by simp_all
  from first_colon_unique [OF assms(2) assms(5) 2]
  have p: "p = p'" and 3: "t @ CHR '':'' # (CHR ''-'' # d) = t' @ CHR '':'' # (CHR ''-'' # d')"
    by simp_all
  from first_colon_unique [OF assms(3) assms(6) 3]
  have "t = t'" and "d = d'" by simp_all
  with r p show ?thesis by simp
qed





lemma foldl_print_keeps:
  "files (foldl (\<lambda>w' image. logging PRINT [S image] w') w images) = files w"
  by (induction images arbitrary: w) simp_all







end
